theory Spec2Isabelle
  imports Complex_Main
begin

section \<open>Numbers, rounding and text\<close>

text \<open>
  Python floats and NumPy float64 values are modelled as exact reals, so the rounding
  error of float arithmetic is outside the model. Where the code can meet a NaN or an
  infinity (a regret read from a JSON body, a quotient by zero, a logarithm) the value
  is an \<open>npfloat\<close>, defined below. Python ints are \<open>int\<close> (or \<open>nat\<close> for a counter that
  only counts up from 0).
\<close>

text \<open>
  Python's \<open>round(x, n)\<close> and the \<open>:.nf\<close> format take the multiple of \<open>10^-n\<close> nearest to
  the float \<open>x\<close>. The float and the real that stands for it here differ by the float's
  representation error, which decides nothing except where the real lies exactly
  half-way between two multiples: there the float is a little above, a little below or
  on the half-way point (and on it Python takes the even neighbour). Which neighbour the
  code reaches at such a tie is therefore not a function of the real; it is the flag
  \<open>up\<close>, an input of every function that rounds, with one flag for each rounding.
\<close>

definition round_tie :: "bool \<Rightarrow> real \<Rightarrow> int" where
  "round_tie up x =
     (let f = \<lfloor>x\<rfloor>; d = x - of_int f
      in if d < 1 / 2 then f else if 1 / 2 < d then f + 1 else if up then f + 1 else f)"

definition py_round :: "bool \<Rightarrow> real \<Rightarrow> nat \<Rightarrow> real" where
  "py_round up x n = of_int (round_tie up (x * 10 ^ n)) / 10 ^ n"

text \<open>\<open>np.clip(a, lo, hi)\<close> is \<open>minimum(maximum(a, lo), hi)\<close>.\<close>

definition np_clip :: "real \<Rightarrow> real \<Rightarrow> real \<Rightarrow> real" where
  "np_clip a lo hi = min (max a lo) hi"

text \<open>\<open>d.get(key, default)\<close> on a dictionary entry that may be absent.\<close>

definition get_or :: "'a option \<Rightarrow> 'a \<Rightarrow> 'a" where
  "get_or v d = (case v of None \<Rightarrow> d | Some x \<Rightarrow> x)"

text \<open>Decimal text of a number: \<open>str\<close> of an int, and the \<open>:.nf\<close> format of a float.\<close>

fun string_of_nat :: "nat \<Rightarrow> string" where
  "string_of_nat n =
     (if n < 10 then [char_of (48 + n)]
      else string_of_nat (n div 10) @ [char_of (48 + n mod 10)])"

declare string_of_nat.simps [simp del]

definition str_int :: "int \<Rightarrow> string" where
  "str_int i = (if i < 0 then ''-'' @ string_of_nat (nat (- i)) else string_of_nat (nat i))"

definition fmt_fixed :: "bool \<Rightarrow> nat \<Rightarrow> real \<Rightarrow> string" where
  "fmt_fixed up n x =
     (let r = nat (round_tie up (\<bar>x\<bar> * 10 ^ n));
          ip = string_of_nat (r div 10 ^ n);
          fp = string_of_nat (r mod 10 ^ n)
      in (if x < 0 then ''-'' else '''') @ ip @
         (if n = 0 then '''' else ''.'' @ replicate (n - length fp) CHR ''0'' @ fp))"


subsection \<open>Floats that may be NaN or infinite\<close>

text \<open>
  IEEE arithmetic as far as the code below needs it. A comparison with NaN is false;
  \<open>np.max\<close> and \<open>np.clip\<close> pass a NaN on. The two zeros are not told apart: a zero
  divisor counts as the positive zero.
\<close>

datatype npfloat = Num real | PInf | NInf | NaN

fun npf_less :: "npfloat \<Rightarrow> npfloat \<Rightarrow> bool" where
  "npf_less (Num x) (Num y) = (x < y)"
| "npf_less (Num x) PInf = True"
| "npf_less NInf (Num y) = True"
| "npf_less NInf PInf = True"
| "npf_less _ _ = False"

definition npf_greater :: "npfloat \<Rightarrow> npfloat \<Rightarrow> bool" where
  "npf_greater a b = npf_less b a"

fun npf_add :: "npfloat \<Rightarrow> npfloat \<Rightarrow> npfloat" where
  "npf_add (Num x) (Num y) = Num (x + y)"
| "npf_add NaN _ = NaN"
| "npf_add _ NaN = NaN"
| "npf_add PInf NInf = NaN"
| "npf_add NInf PInf = NaN"
| "npf_add PInf _ = PInf"
| "npf_add _ PInf = PInf"
| "npf_add NInf _ = NInf"
| "npf_add _ NInf = NInf"

text \<open>The product of a finite number \<open>c\<close> and a float.\<close>

fun npf_scale :: "real \<Rightarrow> npfloat \<Rightarrow> npfloat" where
  "npf_scale c (Num x) = Num (c * x)"
| "npf_scale c NaN = NaN"
| "npf_scale c PInf = (if c > 0 then PInf else if c < 0 then NInf else NaN)"
| "npf_scale c NInf = (if c > 0 then NInf else if c < 0 then PInf else NaN)"

text \<open>The quotient of two finite numbers, and of a float by a count.\<close>

definition npf_div :: "real \<Rightarrow> real \<Rightarrow> npfloat" where
  "npf_div x y =
     (if y \<noteq> 0 then Num (x / y)
      else if x = 0 then NaN else if x > 0 then PInf else NInf)"

fun npf_over :: "npfloat \<Rightarrow> nat \<Rightarrow> npfloat" where
  "npf_over (Num x) n = npf_div x (real n)"
| "npf_over v n = v"

definition np_maximum :: "npfloat \<Rightarrow> npfloat \<Rightarrow> npfloat" where
  "np_maximum a b =
     (if a = NaN \<or> b = NaN then NaN else if npf_less a b then b else a)"

text \<open>\<open>np.clip(a, 0, 1)\<close> on a float.\<close>

fun npf_clip01 :: "npfloat \<Rightarrow> npfloat" where
  "npf_clip01 (Num x) = Num (min (max x 0) 1)"
| "npf_clip01 PInf = Num 1"
| "npf_clip01 NInf = Num 0"
| "npf_clip01 NaN = NaN"

text \<open>A number in [0, 1]: what a regret is meant to be.\<close>

definition in_unit :: "npfloat \<Rightarrow> bool" where
  "in_unit v = (case v of Num x \<Rightarrow> 0 \<le> x \<and> x \<le> 1 | _ \<Rightarrow> False)"

text \<open>\<open>np.log1p\<close>: minus infinity at -1, NaN below.\<close>

definition np_log1p :: "real \<Rightarrow> npfloat" where
  "np_log1p v = (if v > - 1 then Num (ln (1 + v)) else if v = - 1 then NInf else NaN)"


section \<open>Trust score engine\<close>

subsection \<open>Strategy A: the tiered composite (\<open>SentientTraderEnv._calculate_ppi\<close>)\<close>

text \<open>
  The method reads \<open>self.volatility\<close> and draws two uniform random numbers: the mocked
  community signal \<open>u_belonging\<close> (drawn from [0.6, 1.0]) and the mocked solar share
  \<open>u_solar\<close> (drawn from [0.7, 1.0]). They are arguments here.
\<close>

definition calculate_ppi :: "real \<Rightarrow> real \<Rightarrow> real \<Rightarrow> real \<Rightarrow> real \<Rightarrow> real" where
  "calculate_ppi volatility pnl_pct drawdown u_belonging u_solar =
     (let safety_score = 0;
          safety_score = (if volatility < 0.05 then safety_score + 50 else safety_score);
          safety_score = (if drawdown < 10 then safety_score + 50 else safety_score);
          safety_score = (safety_score / 100) * 40;
          belonging_score = u_belonging * 20;
          esteem_score = (if pnl_pct > 0 then min (pnl_pct / 10) 1 * 20 else 0);
          solar_pct = u_solar;
          self_actualization_score = solar_pct * 20;
          total_ppi = safety_score + belonging_score + esteem_score + self_actualization_score
      in np_clip total_ppi 0 100)"

subsection \<open>Strategy B: the weighted silos (\<open>calculate_hybrid_ppi\<close>)\<close>

text \<open>
  \<open>episode_data\<close> is a dictionary; each key the function reads may be absent, and
  \<open>.get\<close> supplies the default. The environment stores an int under \<open>fear_greed\<close> and
  \<open>whale_accum\<close>, floats under \<open>etf_inflows\<close> and \<open>sharpe\<close>, a bool under \<open>solar_regen\<close>.
\<close>

record episode_data =
  fear_greed :: "int option"
  etf_inflows :: "real option"
  solar_regen :: "bool option"
  whale_accum :: "int option"
  sharpe :: "real option"

record silo =
  name :: string
  score :: real
  weight :: real
  inputs :: string

text \<open>The tie flags of the seven roundings of \<open>calculate_hybrid_ppi\<close>, in source order.\<close>

record silo_ties =
  sentiment_up :: bool
  flow_up :: bool
  flow_text_up :: bool
  tech_up :: bool
  macro_up :: bool
  esteem_up :: bool
  sharpe_text_up :: bool

definition hybrid_silos :: "silo_ties \<Rightarrow> episode_data \<Rightarrow> silo list" where
  "hybrid_silos t ed =
     (let fear_greed = get_or (fear_greed ed) 50;
          sentiment_score = real_of_int fear_greed / 10;
          etf_inflows = get_or (etf_inflows ed) 0;
          flow_score = min (etf_inflows / 1000000000) 10;
          solar_regen = get_or (solar_regen ed) False;
          tech_score = (if solar_regen then 7.0 else 3.0);
          whale_accum = get_or (whale_accum ed) 0;
          macro_score = (if whale_accum > 20000 then 8.0 else 4.0);
          sharpe = get_or (sharpe ed) 0;
          esteem_score = 6.0 + (sharpe * 2)
      in [\<lparr>name = ''Sentiment'', score = py_round (sentiment_up t) sentiment_score 2, weight = 0.4,
            inputs = ''Fear & Greed: '' @ str_int fear_greed @ '', MPT 40%''\<rparr>,
          \<lparr>name = ''Flow'', score = py_round (flow_up t) flow_score 2, weight = 0.2,
            inputs = ''ETF Inflows: $'' @ fmt_fixed (flow_text_up t) 1 (etf_inflows / 1000000000) @ ''B''\<rparr>,
          \<lparr>name = ''Tech'', score = py_round (tech_up t) tech_score 2, weight = 0.15,
            inputs = ''Solar Regen: '' @ (if solar_regen then ''Yes'' else ''No'')\<rparr>,
          \<lparr>name = ''Macro'', score = py_round (macro_up t) macro_score 2, weight = 0.15,
            inputs = ''Whale Accum: '' @ str_int whale_accum @ '' BTC''\<rparr>,
          \<lparr>name = ''Esteem'', score = py_round (esteem_up t) esteem_score 2, weight = 0.1,
            inputs = ''Sharpe: '' @ fmt_fixed (sharpe_text_up t) 2 sharpe\<rparr>])"

definition calculate_hybrid_ppi :: "silo_ties \<Rightarrow> episode_data \<Rightarrow> real \<times> silo list" where
  "calculate_hybrid_ppi t ed =
     (let silos = hybrid_silos t ed;
          composite = sum_list (map (\<lambda>s. score s * weight s) silos) * 10
      in (composite, silos))"

subsection \<open>Tier mapping (\<open>get_ppi_tier\<close>)\<close>

definition PPI_TIER_MAP :: "((real \<times> real) \<times> string) list" where
  "PPI_TIER_MAP =
     [((0, 20), ''Survival (Physiological)''),
      ((20, 40), ''Safety''),
      ((40, 60), ''Belonging''),
      ((60, 80), ''Esteem''),
      ((80, 100), ''Self-Actualization'')]"

text \<open>The loop over the dictionary's items, in insertion order, with the default after it.\<close>

fun tier_loop :: "((real \<times> real) \<times> string) list \<Rightarrow> real \<Rightarrow> string" where
  "tier_loop [] ppi_score = ''Self-Actualization''"
| "tier_loop (((low, high), tier) # rest) ppi_score =
     (if low \<le> ppi_score \<and> ppi_score < high then tier else tier_loop rest ppi_score)"

definition get_ppi_tier :: "real \<Rightarrow> string" where
  "get_ppi_tier ppi_score = tier_loop PPI_TIER_MAP ppi_score"


section \<open>Decision fusion engine\<close>

text \<open>
  \<open>Action\<close> is a validated model: its \<open>type\<close> is one of three literals, \<open>size\<close> and
  \<open>confidence\<close> lie in [0, 1]. Constructing one from values outside that raises, and so
  does a NaN, so that the fields of an action are finite numbers.
\<close>

datatype kind = Buy | Sell | Hold

record Action =
  type :: kind
  size :: real
  confidence :: real
  reasoning :: string

definition valid_Action :: "Action \<Rightarrow> bool" where
  "valid_Action a = (0 \<le> size a \<and> size a \<le> 1 \<and> 0 \<le> confidence a \<and> confidence a \<le> 1)"

fun kind_str :: "kind \<Rightarrow> string" where
  "kind_str Buy = ''buy''"
| "kind_str Sell = ''sell''"
| "kind_str Hold = ''hold''"

fun action_values :: "kind \<Rightarrow> int" where
  "action_values Buy = 1"
| "action_values Hold = 0"
| "action_values Sell = - 1"

text \<open>The bullet and the arrow of the reasoning text, as their UTF-8 bytes.\<close>

definition bullet :: string where
  "bullet = [CHR 0xE2, CHR 0x80, CHR 0xA2]"

definition arrow :: string where
  "arrow = [CHR 0xE2, CHR 0x86, CHR 0x92]"

text \<open>The tie flags of the five roundings of \<open>blend_actions\<close>.\<close>

record blend_ties =
  size_up :: bool
  confidence_up :: bool
  rl_text_up :: bool
  grok_text_up :: bool
  final_text_up :: bool

definition blend_actions :: "blend_ties \<Rightarrow> Action \<Rightarrow> Action \<Rightarrow> Action" where
  "blend_actions t rl_action grok_action =
     (let rl_value = action_values (type rl_action);
          grok_value = action_values (type grok_action);
          blended_value = real_of_int (rl_value + grok_value) / 2;
          final_action = (if blended_value > 0.3 then Buy
                          else if blended_value < - 0.3 then Sell
                          else Hold);
          final_size = (size rl_action + size grok_action) / 2;
          agreement = (if type rl_action = type grok_action then 1.0 else 0.5);
          final_confidence = ((confidence rl_action + confidence grok_action) / 2) * agreement;
          final_reasoning =
            ''[Hybrid Decision]'' @ [CHR 0x0A] @ bullet @ '' RL Agent: '' @
            kind_str (type rl_action) @ '' ('' @ fmt_fixed (rl_text_up t) 2 (size rl_action) @ '') - '' @
            reasoning rl_action @ [CHR 0x0A] @ bullet @ '' Grok AI: '' @
            kind_str (type grok_action) @ '' ('' @ fmt_fixed (grok_text_up t) 2 (size grok_action) @ '') - '' @
            reasoning grok_action @ [CHR 0x0A] @ arrow @ '' Final: '' @
            kind_str final_action @ '' ('' @ fmt_fixed (final_text_up t) 2 final_size @ '')''
      in \<lparr>type = final_action,
          size = py_round (size_up t) final_size 3,
          confidence = py_round (confidence_up t) final_confidence 3,
          reasoning = final_reasoning\<rparr>)"


section \<open>The actor simulation environment (\<open>SentientTraderFinRLEnv\<close>)\<close>

text \<open>
  The environment object is a record of its attributes. The three actor arrays have six
  entries and \<open>ppi_silos\<close> seven, in the order of \<open>ACTORS\<close>: retail, whale, hft, etf, arb,
  you; \<open>__init__\<close> and \<open>reset\<close> create them so and nothing resizes them. The data frame
  is the list of its rows, of which the code reads \<open>close\<close> and \<open>volume\<close>; its numbers are
  finite. The regrets and the two histories hold floats that may be NaN or infinite,
  since the code can store such values there. The attribute \<open>fear_greed\<close> is
  \<open>fear_greed_env\<close> here, the name being taken by the silo input above; the keys of a
  trade and of \<open>info\<close> carry a prefix for the same reason.
\<close>

datatype error = IndexError | HTTPException nat string

record bar =
  close :: real
  volume_bar :: real

record trade =
  t_step :: nat
  t_action :: string
  t_size :: real
  t_price :: real

record env =
  df :: "bar list"
  current_step :: nat
  max_steps :: int
  capital :: real
  initial_capital :: real
  price :: real
  volatility :: real
  actor_regrets :: "npfloat list"
  actor_inventory :: "real list"
  actor_last_action :: "real list"
  ppi_silos :: "real list"
  dxy :: real
  vix :: real
  fear_greed_env :: real
  volume :: real
  trades :: "trade list"
  pnl_history :: "npfloat list"
  drawdown_history :: "npfloat list"
  max_capital :: real
  nash_equilibrium_count :: nat

definition shapes_ok :: "env \<Rightarrow> bool" where
  "shapes_ok s =
     (length (actor_regrets s) = 6 \<and> length (actor_inventory s) = 6 \<and>
      length (actor_last_action s) = 6 \<and> length (ppi_silos s) = 7)"

text \<open>\<open>__init__\<close>, for a given data frame (the address of the advisory service left out).\<close>

definition init_env :: "bar list \<Rightarrow> env" where
  "init_env d =
     \<lparr>df = d,
      current_step = 0,
      max_steps = int (length d) - 1,
      capital = 1.0,
      initial_capital = 1.0,
      price = 112000.0,
      volatility = 0.03,
      actor_regrets = [Num 0, Num 0, Num 0, Num 0, Num 0, Num 0],
      actor_inventory = [0.1, 26.0, 0.5, 100.0, 1.0, 1.0],
      actor_last_action = [0, 0, 0, 0, 0, 0],
      ppi_silos = [0, 0, 0, 0, 0, 0, 0],
      dxy = 104.5,
      vix = 15.0,
      fear_greed_env = 50,
      volume = 1000000000,
      trades = [],
      pnl_history = [],
      drawdown_history = [],
      max_capital = 1.0,
      nash_equilibrium_count = 0\<rparr>"

text \<open>
  What one call of \<open>step\<close> receives from outside: for each actor the outcome of the
  regret request and the normal draw of the fallback, and the random draws of
  \<open>_simulate_actors\<close> and \<open>_update_ppi_silos\<close>.

  A regret request ends in one of three ways: status 200 with a JSON object; another
  status; or an exception raised by the request or by the reading of the body (a
  timeout, a transport error, a body that is not a JSON object). In the object the key
  \<open>regret\<close> may be absent. When it is there, the assignment into the float array stores a
  number as it is, the literals \<open>NaN\<close> and \<open>Infinity\<close> included; it stores NaN for \<open>null\<close>;
  it converts a boolean or a numeric string to its number (such a value is the \<open>Number\<close>
  it converts to); and it raises on anything else, inside the \<open>try\<close> block.
\<close>

datatype regret_json = Number npfloat | Null | Unconvertible

datatype regret_reply = Reply200 "regret_json option" | ReplyOther | ReplyError

record step_inputs =
  regret_replies :: "nat \<Rightarrow> regret_reply"
  regret_noise :: "nat \<Rightarrow> real"
  whale_rand :: real
  hft_choice :: real
  arb_rand :: real
  arb_choice :: real
  belonging_uniform :: real

subsection \<open>NumPy helpers\<close>

text \<open>
  On an empty array \<open>np.max\<close> raises; the arrays it is applied to here are not empty.
  \<open>np.mean\<close> of an empty array is NaN.
\<close>

definition np_max :: "npfloat list \<Rightarrow> npfloat" where
  "np_max xs = fold np_maximum (tl xs) (hd xs)"

definition np_mean :: "npfloat list \<Rightarrow> npfloat" where
  "np_mean xs = npf_over (fold (\<lambda>x acc. npf_add acc x) xs (Num 0)) (length xs)"

fun np_diff :: "real list \<Rightarrow> real list" where
  "np_diff (x # y # rest) = (y - x) # np_diff (y # rest)"
| "np_diff _ = []"

subsection \<open>\<open>_update_actor_regrets\<close>\<close>

text \<open>The random walk of the \<open>except\<close> branch.\<close>

definition regret_fallback :: "step_inputs \<Rightarrow> npfloat list \<Rightarrow> nat \<Rightarrow> npfloat list" where
  "regret_fallback inp regrets i =
     regrets[i := npf_clip01 (npf_add (regrets ! i) (Num (regret_noise inp i * 0.1)))]"

definition update_regret :: "step_inputs \<Rightarrow> npfloat list \<Rightarrow> nat \<Rightarrow> npfloat list" where
  "update_regret inp regrets i =
     (case regret_replies inp i of
        Reply200 data \<Rightarrow>
          (case get_or data (Number (Num 0.5)) of
             Number v \<Rightarrow> regrets[i := v]
           | Null \<Rightarrow> regrets[i := NaN]
           | Unconvertible \<Rightarrow> regret_fallback inp regrets i)
      | ReplyOther \<Rightarrow> regrets
      | ReplyError \<Rightarrow> regret_fallback inp regrets i)"

definition update_actor_regrets :: "step_inputs \<Rightarrow> env \<Rightarrow> env" where
  "update_actor_regrets inp s =
     s\<lparr>actor_regrets := fold (\<lambda>i regrets. update_regret inp regrets i)
                              [0, 1, 2, 3, 4, 5] (actor_regrets s)\<rparr>"

subsection \<open>The regret gate and the execution of the action\<close>

definition regret_gate :: "env \<Rightarrow> int \<Rightarrow> int \<times> bool" where
  "regret_gate s action =
     (if npf_greater (np_max (actor_regrets s)) (Num 0.7) then (0, True)
      else (action, False))"

definition risk_table :: "(real \<times> string) list" where
  "risk_table = [(0.25, ''0.25''), (0.5, ''0.5''), (1.0, ''1.0'')]"

text \<open>Step 3 of \<open>step\<close>: the new capital, the trade size and the name of the action.\<close>

definition apply_action :: "real \<Rightarrow> int \<Rightarrow> real \<times> real \<times> string" where
  "apply_action cap action =
     (if action = 0 then (cap, 0, ''hold'')
      else if 1 \<le> action \<and> action \<le> 3 then
        (let (risk_pct, risk_str) = risk_table ! nat (action - 1);
             trade_size = cap * risk_pct / 100
         in (cap - trade_size, trade_size, ''long_'' @ risk_str @ ''%''))
      else if 4 \<le> action \<and> action \<le> 6 then
        (let (risk_pct, risk_str) = risk_table ! nat (action - 4);
             trade_size = cap * risk_pct / 100
         in (cap + trade_size, trade_size, ''short_'' @ risk_str @ ''%''))
      else if action = 7 then
        (let trade_size = cap * 0.10 in (cap - trade_size, trade_size, ''ramp_ez''))
      else if action = 8 then
        (let trade_size = 0.02 in (cap - trade_size, trade_size, ''trac''))
      else (cap, 0, ''hold''))"

definition execute_action :: "env \<Rightarrow> int \<Rightarrow> env \<times> string" where
  "execute_action s action =
     (let (cap, trade_size, action_name) = apply_action (capital s) action;
          s = s\<lparr>capital := cap\<rparr>;
          s = (if trade_size \<noteq> 0
               then s\<lparr>trades := trades s @
                       [\<lparr>t_step = current_step s, t_action = action_name,
                         t_size = trade_size, t_price = price s\<rparr>]\<rparr>
               else s)
      in (s, action_name))"

subsection \<open>\<open>_simulate_actors\<close>, \<open>_update_ppi_silos\<close>, \<open>_check_nash_equilibrium\<close>\<close>

definition simulate_actors :: "step_inputs \<Rightarrow> env \<Rightarrow> env" where
  "simulate_actors inp s =
     (let regrets = actor_regrets s;
          la = actor_last_action s;
          inv = actor_inventory s;
          \<comment> \<open>retail\<close>
          (la, inv) =
            (if npf_less (regrets ! 0) (Num 0.3) then (la[0 := 1], inv[0 := inv ! 0 + 0.01])
             else if npf_greater (regrets ! 0) (Num 0.8)
             then (la[0 := 2], inv[0 := max 0 (inv ! 0 - 0.02)])
             else (la[0 := 0], inv));
          \<comment> \<open>whale\<close>
          (la, inv) =
            (if whale_rand inp < 0.05 then (la[1 := 1], inv[1 := inv ! 1 + 1.0])
             else (la[1 := 0], inv));
          \<comment> \<open>hft\<close>
          la = la[2 := hft_choice inp];
          \<comment> \<open>etf\<close>
          la = la[3 := 1];
          inv = inv[3 := inv ! 3 + 0.1];
          \<comment> \<open>arb\<close>
          la = (if arb_rand inp < 0.3 then la[4 := arb_choice inp] else la[4 := 0]);
          \<comment> \<open>you\<close>
          la = la[5 := 0]
      in s\<lparr>actor_last_action := la, actor_inventory := inv\<rparr>)"

definition update_ppi_silos :: "step_inputs \<Rightarrow> npfloat \<Rightarrow> npfloat \<Rightarrow> env \<Rightarrow> env" where
  "update_ppi_silos inp pnl_pct drawdown s =
     s\<lparr>ppi_silos :=
         (ppi_silos s)
           [0 := (if volatility s < 0.05 \<and> npf_less drawdown (Num 10) then 8.0 else 3.0),
            1 := belonging_uniform inp,
            2 := (if npf_greater pnl_pct (Num 0) then 7.0 else 4.0),
            3 := 8.0,
            4 := 7.0,
            5 := 6.5,
            6 := 6.0]\<rparr>"

definition check_nash_equilibrium :: "env \<Rightarrow> bool" where
  "check_nash_equilibrium s =
     (let stable_actors = length (filter (\<lambda>r. npf_less r (Num 0.3)) (actor_regrets s))
      in stable_actors \<ge> 3)"

subsection \<open>\<open>_get_obs\<close>\<close>

text \<open>
  \<open>df.iloc[current_step]\<close> raises IndexError past the last row. The method stores the
  row's price and volume in the object before it builds the vector, so it returns the
  state as well. \<open>astype(np.float32)\<close> changes the precision only.
\<close>

definition obs_dim :: nat where
  "obs_dim = 42"

definition concat_obs :: "env \<Rightarrow> npfloat list" where
  "concat_obs s =
     map Num (ppi_silos s) @
     actor_regrets s @
     map (\<lambda>x. Num (x / 100)) (actor_inventory s) @
     map Num (actor_last_action s) @
     [Num (dxy s / 100),
      Num (vix s / 100),
      Num (fear_greed_env s / 100),
      Num (price s / 100000),
      npf_scale (1 / 20) (np_log1p (volume s))]"

definition get_obs :: "env \<Rightarrow> (error + npfloat list) \<times> env" where
  "get_obs s =
     (if current_step s < length (df s) then
        (let row = df s ! current_step s;
             s = s\<lparr>price := close row, volume := volume_bar row\<rparr>;
             obs = concat_obs s;
             obs = (if length obs < 42 then obs @ replicate (42 - length obs) (Num 0)
                    else obs)
         in (Inr (take 42 obs), s))
      else (Inl IndexError, s))"

subsection \<open>\<open>step\<close>\<close>

record info =
  info_action :: string
  info_pnl :: real
  info_pnl_pct :: npfloat
  info_drawdown :: npfloat
  info_price :: real
  info_actor_regrets :: "npfloat list"
  nash_stable :: bool
  nash_stability_pct :: real
  regret_blocked :: bool
  ppi_composite :: npfloat

record step_result =
  obs :: "npfloat list"
  reward :: npfloat
  terminated :: bool
  truncated :: bool
  step_info :: info

text \<open>
  The body of \<open>step\<close> is a sequence of ten numbered parts. Parts 6, 9 and 10 and the
  \<open>info\<close> dictionary are written as functions of their own here, and \<open>step\<close> runs them
  in the source's order.
\<close>

text \<open>
  6. profit and drawdown: the state with its histories, and \<open>(pnl, pnl_pct, drawdown)\<close>.
  The price is a NumPy scalar read from the data frame (before the first observation it
  is the Python float 112000.0, which is not zero), so the two quotients are NumPy
  divisions: they give NaN or an infinity on a zero divisor and raise nothing.
\<close>

definition update_metrics :: "env \<Rightarrow> env \<times> real \<times> npfloat \<times> npfloat" where
  "update_metrics s =
     (let current_value = capital s * price s;
          pnl = current_value - initial_capital s * price s;
          pnl_pct = npf_scale 100 (npf_div pnl (initial_capital s * price s));
          s = s\<lparr>pnl_history := pnl_history s @ [pnl_pct]\<rparr>;
          s = s\<lparr>max_capital := max (max_capital s) current_value\<rparr>;
          drawdown = npf_scale 100 (npf_div (max_capital s - current_value) (max_capital s));
          s = s\<lparr>drawdown_history := drawdown_history s @ [drawdown]\<rparr>
      in (s, pnl, pnl_pct, drawdown))"

definition nash_stability :: "env \<Rightarrow> real" where
  "nash_stability s = real (nash_equilibrium_count s) / real (max (current_step s) 1)"

text \<open>9. the reward.\<close>

definition hybrid_reward :: "env \<Rightarrow> real \<Rightarrow> bool \<Rightarrow> npfloat" where
  "hybrid_reward s pnl nash =
     (let reward = Num (pnl / 1000);
          reward = npf_add reward (npf_scale (- 0.4) (np_mean (actor_regrets s)));
          nash_deviation = 1.0 - nash_stability s;
          reward = npf_add reward (Num (- (0.3 * nash_deviation)))
      in if nash then npf_add reward (Num 1.0) else reward)"

text \<open>10. the end of the episode: \<open>terminated\<close> and \<open>truncated\<close>.\<close>

definition is_terminated :: "env \<Rightarrow> bool" where
  "is_terminated s = (int (current_step s) \<ge> max_steps s)"

definition is_truncated :: "env \<Rightarrow> npfloat \<Rightarrow> bool" where
  "is_truncated s drawdown =
     (let last3 = drop (length (ppi_silos s) - 3) (ppi_silos s)
      in npf_greater drawdown (Num 5.0) \<or> sum_list (map abs (np_diff last3)) > 15)"

definition make_info ::
  "env \<Rightarrow> string \<Rightarrow> real \<Rightarrow> npfloat \<Rightarrow> npfloat \<Rightarrow> bool \<Rightarrow> bool \<Rightarrow> info" where
  "make_info s action_name pnl pnl_pct drawdown nash blocked =
     \<lparr>info_action = action_name,
      info_pnl = pnl,
      info_pnl_pct = pnl_pct,
      info_drawdown = drawdown,
      info_price = price s,
      info_actor_regrets = actor_regrets s,
      nash_stable = nash,
      nash_stability_pct = nash_stability s * 100,
      regret_blocked = blocked,
      ppi_composite = npf_scale 10 (np_mean (map Num (ppi_silos s)))\<rparr>"

definition step :: "step_inputs \<Rightarrow> env \<Rightarrow> int \<Rightarrow> (error + step_result) \<times> env" where
  "step inp s action =
     (let \<comment> \<open>1. regrets; 2. the regret gate; 3. the action and its trade\<close>
          s = update_actor_regrets inp s;
          (action, blocked) = regret_gate s action;
          (s, action_name) = execute_action s action;
          \<comment> \<open>4. the other actors; 5. the market\<close>
          s = simulate_actors inp s;
          s = s\<lparr>current_step := current_step s + 1\<rparr>;
          \<comment> \<open>6. profit and drawdown; 7. silos; 8. stability\<close>
          (s, pnl, pnl_pct, drawdown) = update_metrics s;
          s = update_ppi_silos inp pnl_pct drawdown s;
          nash = check_nash_equilibrium s;
          s = (if nash then s\<lparr>nash_equilibrium_count := nash_equilibrium_count s + 1\<rparr>
               else s);
          \<comment> \<open>9. reward; 10. the end of the episode\<close>
          r = hybrid_reward s pnl nash;
          term = is_terminated s;
          trunc = is_truncated s drawdown;
          inf = make_info s action_name pnl pnl_pct drawdown nash blocked
      in case get_obs s of
           (Inl e, s) \<Rightarrow> (Inl e, s)
         | (Inr vec, s) \<Rightarrow>
             (Inr \<lparr>obs = vec, reward = r, terminated = term,
                   truncated = trunc, step_info = inf\<rparr>, s))"


section \<open>The episode session manager (\<open>main.py\<close>)\<close>

subsection \<open>Requests, responses and the mock policy\<close>

text \<open>
  Time stamps are left out of every model, and the numbers of a request are finite. Fields whose names are taken above carry a
  prefix: \<open>ms_\<close> for \<open>MarketState\<close>, \<open>ep_\<close> for the dictionary kept per live episode,
  \<open>ag_\<close>, \<open>er_\<close> and \<open>ar_\<close> for the columns of the \<open>agents\<close>, \<open>episodes\<close> and \<open>actions\<close>
  tables, \<open>ee_\<close> for \<open>EndEpisodeRequest\<close>.
\<close>

record MarketState =
  ms_price :: real
  ms_volume :: real
  sentiment :: real

record MockRLAgent =
  agent_name :: string
  step_count :: nat
  last_action :: kind

record StepRequest =
  episode_id :: string
  market_state :: MarketState
  current_balance :: real
  current_position :: real

record StepResponse =
  resp_episode_id :: string
  resp_step :: nat
  resp_action :: Action

record EndEpisodeRequest =
  ee_episode_id :: string
  final_pnl :: real
  ee_ppi_score :: real
  total_steps :: int
  total_reward :: real

record EndEpisodeResponse =
  end_episode_id :: string
  end_agent_id :: string
  saved :: bool
  message :: string

text \<open>
  \<open>Action(...)\<close> validates its fields and raises when \<open>size\<close> or \<open>confidence\<close> is outside
  [0, 1]; \<open>None\<close> stands for that exception.
\<close>

definition mk_Action :: "kind \<Rightarrow> real \<Rightarrow> real \<Rightarrow> string \<Rightarrow> Action option" where
  "mk_Action k sz c r =
     (let a = \<lparr>type = k, size = sz, confidence = c, reasoning = r\<rparr>
      in if valid_Action a then Some a else None)"

definition generate_reasoning :: "bool \<Rightarrow> kind \<Rightarrow> real \<Rightarrow> MarketState \<Rightarrow> string" where
  "generate_reasoning up action decision_score state =
     (let sentiment_desc = (if sentiment state > 0.3 then ''bullish''
                            else if sentiment state < - 0.3 then ''bearish''
                            else ''neutral'')
      in if action = Buy then
           ''Market sentiment is '' @ sentiment_desc @ '' ('' @ fmt_fixed up 2 (sentiment state) @
           ''). Momentum indicator suggests upward movement. Initiating long position.''
         else if action = Sell then
           ''Market sentiment is '' @ sentiment_desc @ '' ('' @ fmt_fixed up 2 (sentiment state) @
           ''). Risk management suggests taking profits. Reducing exposure.''
         else
           ''Market conditions are '' @ sentiment_desc @
           ''. Holding current position and monitoring for clearer signals.'')"

text \<open>
  What one call of \<open>take_step\<close> receives from outside: the tie flags of the roundings
  it does (three in the mock policy, five in the blend), the uniform draws of the mock
  policy and of the reward, the outcome of the request to the advisory service, whether
  the insert into \<open>actions\<close> succeeds, and the sockets on which sending fails.

  The advisory request ends with status 200 and a body (\<open>action\<close>, \<open>size\<close>, \<open>reasoning\<close>),
  with another status, or with an exception whose text is given. \<open>validation_text\<close> is
  the text of the exception \<open>Action(...)\<close> raises on a body it rejects; a body whose
  size is NaN is rejected like one whose size is out of range.
\<close>

datatype grok_reply = Grok200 string real string | GrokStatus int | GrokRaise string

record take_step_inputs =
  policy_size_up :: bool
  policy_confidence_up :: bool
  policy_text_up :: bool
  blend_up :: blend_ties
  price_momentum :: real
  decision_noise :: real
  size_draw :: real
  confidence_draw :: real
  reward_draw :: real
  grok :: grok_reply
  validation_text :: string
  insert_ok :: bool
  send_fails :: "nat list"

definition decide_action ::
  "take_step_inputs \<Rightarrow> MockRLAgent \<Rightarrow> MarketState \<Rightarrow> real \<Rightarrow> Action option \<times> MockRLAgent"
  where
  "decide_action inp self state position =
     (let self = self\<lparr>step_count := step_count self + 1\<rparr>;
          sentiment_weight = sentiment state * 0.3;
          decision_score = price_momentum inp + sentiment_weight + decision_noise inp;
          (action_type, sz) =
            (if decision_score > 0.15 \<and> position < 0.8 then (Buy, size_draw inp)
             else if decision_score < - 0.15 \<and> position > 0.2 then (Sell, size_draw inp)
             else (Hold, 0.0));
          conf = min 0.95 (\<bar>decision_score\<bar> + confidence_draw inp);
          text = generate_reasoning (policy_text_up inp) action_type decision_score state;
          self = self\<lparr>last_action := action_type\<rparr>
      in (mk_Action action_type (py_round (policy_size_up inp) sz 3)
                     (py_round (policy_confidence_up inp) conf 3) text, self))"

fun parse_kind :: "string \<Rightarrow> kind option" where
  "parse_kind s =
     (if s = ''buy'' then Some Buy else if s = ''sell'' then Some Sell
      else if s = ''hold'' then Some Hold else None)"

definition grok_fallback :: "string \<Rightarrow> Action" where
  "grok_fallback e =
     \<lparr>type = Hold, size = 0.0, confidence = 0.5,
      reasoning = ''[Grok AI - Fallback] API unavailable: '' @ e\<rparr>"

text \<open>
  Everything in \<open>get_grok_decision\<close> is inside one \<open>try\<close>: the division by the price, the
  request, the reading of the body and the construction of the action. Whatever is
  raised there ends in the fallback action.
\<close>

definition get_grok_decision ::
  "take_step_inputs \<Rightarrow> MarketState \<Rightarrow> real \<Rightarrow> real \<Rightarrow> real \<Rightarrow> Action" where
  "get_grok_decision inp state balance position ppi_score =
     (if ms_price state = 0 then grok_fallback ''float division by zero''
      else case grok inp of
        Grok200 a sz r \<Rightarrow>
          (case parse_kind a of
             None \<Rightarrow> grok_fallback (validation_text inp)
           | Some k \<Rightarrow>
               (case mk_Action k sz 0.85 (''[Grok AI] '' @ r) of
                  None \<Rightarrow> grok_fallback (validation_text inp)
                | Some act \<Rightarrow> act))
      | GrokStatus code \<Rightarrow> grok_fallback (''Grok API returned '' @ str_int code)
      | GrokRaise e \<Rightarrow> grok_fallback e)"

subsection \<open>The store, the live registry and the subscribers\<close>

text \<open>
  The episode store is the Supabase client, or \<open>None\<close> when it is not configured: three
  tables, each a list of rows. The live registry \<open>active_episodes\<close> and the subscriber
  lists \<open>websocket_connections\<close> are dictionaries keyed by episode id; a socket is a
  number. The handlers are modelled as run one at a time.
\<close>

record agent_row =
  ag_id :: string
  ag_name :: string
  ag_episodes_trained :: int
  ag_irr :: "real option"
  ag_sharpe :: "real option"
  ag_ppi_score :: "real option"

record episode_row =
  er_id :: string
  er_agent_id :: string
  er_episode_number :: nat
  er_steps :: int
  er_total_reward :: real
  er_ppi_score :: real

record action_row =
  ar_episode_id :: string
  ar_step :: nat
  ar_action_type :: kind
  ar_size :: real
  ar_price :: real
  ar_reward :: real
  ar_grok_confidence :: real

record store =
  agents :: "agent_row list"
  episodes :: "episode_row list"
  actions :: "action_row list"

record live_episode =
  ep_agent_id :: string
  ep_agent_name :: string
  ep_initial_balance :: real
  ep_current_step :: nat
  ep_agent :: MockRLAgent
  ep_ppi_score :: "real option"

record server =
  supabase :: "store option"
  active_episodes :: "string \<rightharpoonup> live_episode"
  websocket_connections :: "string \<rightharpoonup> nat list"

definition broadcast_to_episode ::
  "nat list \<Rightarrow> (string \<rightharpoonup> nat list) \<Rightarrow> string \<Rightarrow> (string \<rightharpoonup> nat list)" where
  "broadcast_to_episode fails conns eid =
     (case conns eid of
        None \<Rightarrow> conns
      | Some sockets \<Rightarrow> conns(eid \<mapsto> filter (\<lambda>ws. ws \<notin> set fails) sockets))"

subsection \<open>\<open>take_step\<close>\<close>

text \<open>
  An exception that leaves the handler (the mock policy's action failing validation) is
  answered by the framework with status 500; what the handler changed before stays
  changed.
\<close>

definition take_step ::
  "take_step_inputs \<Rightarrow> server \<Rightarrow> StepRequest \<Rightarrow> (error + StepResponse) \<times> server" where
  "take_step inp srv request =
     (let eid = episode_id request
      in case active_episodes srv eid of
           None \<Rightarrow> (Inl (HTTPException 404 ''Episode not found or already ended''), srv)
         | Some episode_data \<Rightarrow>
             (let (rl, agent) = decide_action inp (ep_agent episode_data)
                                  (market_state request) (current_position request);
                  episode_data = episode_data\<lparr>ep_agent := agent\<rparr>
              in case rl of
                   None \<Rightarrow>
                     (Inl (HTTPException 500 ''Internal Server Error''),
                      srv\<lparr>active_episodes := (active_episodes srv)(eid \<mapsto> episode_data)\<rparr>)
                 | Some rl_action \<Rightarrow>
                     (let current_ppi = get_or (ep_ppi_score episode_data) 75.0;
                          grok_action = get_grok_decision inp (market_state request)
                                          (current_balance request) (current_position request)
                                          current_ppi;
                          action = blend_actions (blend_up inp) rl_action grok_action;
                          episode_data =
                            episode_data\<lparr>ep_current_step := ep_current_step episode_data + 1\<rparr>;
                          step_no = ep_current_step episode_data;
                          reward =
                            (if type action = Buy then reward_draw inp * size action
                             else if type action = Sell then reward_draw inp * size action
                             else reward_draw inp);
                          ppi_delta = reward * 2;
                          episode_data =
                            episode_data\<lparr>ep_ppi_score :=
                              Some (max 0 (min 100 (current_ppi + ppi_delta)))\<rparr>;
                          row = \<lparr>ar_episode_id = eid, ar_step = step_no,
                                 ar_action_type = type action, ar_size = size action,
                                 ar_price = ms_price (market_state request),
                                 ar_reward = reward,
                                 ar_grok_confidence = confidence action\<rparr>;
                          db = (case supabase srv of
                                  None \<Rightarrow> None
                                | Some st \<Rightarrow>
                                    Some (if insert_ok inp
                                          then st\<lparr>actions := actions st @ [row]\<rparr> else st));
                          response = \<lparr>resp_episode_id = eid, resp_step = step_no,
                                      resp_action = action\<rparr>
                      in (Inr response,
                          srv\<lparr>supabase := db,
                              active_episodes := (active_episodes srv)(eid \<mapsto> episode_data),
                              websocket_connections :=
                                broadcast_to_episode (send_fails inp)
                                  (websocket_connections srv) eid\<rparr>))))"

subsection \<open>\<open>end_episode\<close>\<close>

text \<open>
  What one call of \<open>end_episode\<close> receives from outside: for each of its three calls to
  the store (numbered from 0) whether it succeeds, the text of the exception a failing
  call raises, and the sockets on which sending fails.
\<close>

record end_inputs =
  store_up :: "nat \<Rightarrow> bool"
  store_error :: string
  end_send_fails :: "nat list"

definition running_average :: "real option \<Rightarrow> int \<Rightarrow> real \<Rightarrow> real" where
  "running_average old episodes_count v =
     (get_or old 0 * real_of_int (episodes_count - 1) + v) / real_of_int episodes_count"

definition end_failed :: "string \<Rightarrow> error" where
  "end_failed e = HTTPException 500 (''Failed to end episode: '' @ e)"

text \<open>The end of the \<open>try\<close> block: the end event, then the clean-up, then the response.\<close>

definition end_cleanup ::
  "end_inputs \<Rightarrow> server \<Rightarrow> string \<Rightarrow> string \<Rightarrow> (error + EndEpisodeResponse) \<times> server" where
  "end_cleanup inp srv eid agent_id =
     (let conns = broadcast_to_episode (end_send_fails inp) (websocket_connections srv) eid;
          live = (active_episodes srv)(eid := None);
          conns = conns(eid := None)
      in (Inr \<lparr>end_episode_id = eid, end_agent_id = agent_id, saved = True,
               message = ''Episode ended and saved successfully''\<rparr>,
          srv\<lparr>active_episodes := live, websocket_connections := conns\<rparr>))"

definition end_episode ::
  "end_inputs \<Rightarrow> server \<Rightarrow> EndEpisodeRequest \<Rightarrow> (error + EndEpisodeResponse) \<times> server" where
  "end_episode inp srv request =
     (let eid = ee_episode_id request
      in case active_episodes srv eid of
           None \<Rightarrow> (Inl (HTTPException 404 ''Episode not found''), srv)
         | Some episode_data \<Rightarrow>
        (let agent_id = ep_agent_id episode_data
         in case supabase srv of
              None \<Rightarrow> (Inl (HTTPException 500 ''Supabase not configured''), srv)
            | Some st \<Rightarrow>
           if \<not> store_up inp 0 then (Inl (end_failed (store_error inp)), srv)
           else
             (let st = st\<lparr>episodes :=
                          map (\<lambda>r. if er_id r = eid
                                    then r\<lparr>er_total_reward := total_reward request,
                                           er_steps := total_steps request,
                                           er_ppi_score := ee_ppi_score request\<rparr>
                                    else r) (episodes st)\<rparr>;
                  srv = srv\<lparr>supabase := Some st\<rparr>
              in if ep_initial_balance episode_data = 0
                 then (Inl (end_failed ''float division by zero''), srv)
                 else
                   (let irr = (final_pnl request / ep_initial_balance episode_data) * 100;
                        sharpe = irr / max 1 (real_of_int (total_steps request) / 10)
                    in if \<not> store_up inp 1 then (Inl (end_failed (store_error inp)), srv)
                       else case filter (\<lambda>a. ag_id a = agent_id) (agents st) of
                              [] \<Rightarrow> end_cleanup inp srv eid agent_id
                            | current_agent # _ \<Rightarrow>
                          (let episodes_count = ag_episodes_trained current_agent
                           in if episodes_count = 0
                              then (Inl (end_failed ''float division by zero''), srv)
                              else
                                (let new_irr = running_average (ag_irr current_agent)
                                                 episodes_count irr;
                                     new_sharpe = running_average (ag_sharpe current_agent)
                                                    episodes_count sharpe;
                                     new_ppi = running_average (ag_ppi_score current_agent)
                                                 episodes_count (ee_ppi_score request)
                                 in if \<not> store_up inp 2
                                    then (Inl (end_failed (store_error inp)), srv)
                                    else
                                      (let st = st\<lparr>agents :=
                                                   map (\<lambda>a. if ag_id a = agent_id
                                                             then a\<lparr>ag_irr := Some new_irr,
                                                                    ag_sharpe := Some new_sharpe,
                                                                    ag_ppi_score := Some new_ppi\<rparr>
                                                             else a) (agents st)\<rparr>
                                       in end_cleanup inp (srv\<lparr>supabase := Some st\<rparr>)
                                            eid agent_id)))))))"

subsection \<open>A client's sequence of requests\<close>

text \<open>
  A client sends \<open>/step\<close> and \<open>/end\<close> requests one after the other; each runs on the state
  the one before left, whether it was answered with an error or not.
\<close>

datatype api_call =
    Step take_step_inputs StepRequest
  | End end_inputs EndEpisodeRequest

fun run_call :: "api_call \<Rightarrow> server \<Rightarrow> server" where
  "run_call (Step inp request) srv = snd (take_step inp srv request)"
| "run_call (End inp request) srv = snd (end_episode inp srv request)"

fun run_calls :: "api_call list \<Rightarrow> server \<Rightarrow> server" where
  "run_calls [] srv = srv"
| "run_calls (c # cs) srv = run_calls cs (run_call c srv)"


section \<open>Properties of rounding\<close>

lemma round_tie_ge_floor: "\<lfloor>x\<rfloor> \<le> round_tie up x"
  by (simp add: round_tie_def Let_def)

lemma round_tie_le_Suc_floor: "round_tie up x \<le> \<lfloor>x\<rfloor> + 1"
  by (simp add: round_tie_def Let_def)

lemma round_tie_of_int: "round_tie up (of_int k) = k"
  by (simp add: round_tie_def Let_def)

lemma round_tie_nonneg:
  assumes "0 \<le> x"
  shows "0 \<le> round_tie up x"
proof -
  from assms have "0 \<le> \<lfloor>x\<rfloor>" by simp
  with round_tie_ge_floor [of x up] show ?thesis by linarith
qed

lemma round_tie_le_int:
  assumes "x \<le> of_int k"
  shows "round_tie up x \<le> k"
proof (cases "x = of_int k")
  case True
  then show ?thesis by (simp add: round_tie_of_int)
next
  case False
  with assms have "x < of_int k" by simp
  then have "\<lfloor>x\<rfloor> < k" by (simp add: floor_less_iff)
  with round_tie_le_Suc_floor [of up x] show ?thesis by linarith
qed

lemma py_round_nonneg: "0 \<le> x \<Longrightarrow> 0 \<le> py_round up x n"
  by (simp add: py_round_def round_tie_nonneg)

lemma py_round_le:
  assumes "x \<le> of_int k"
  shows "py_round up x n \<le> of_int k"
proof -
  have "x * 10 ^ n \<le> of_int (k * 10 ^ n)"
    using assms by (simp add: mult_right_mono)
  then have "round_tie up (x * 10 ^ n) \<le> k * 10 ^ n"
    by (rule round_tie_le_int)
  then have "real_of_int (round_tie up (x * 10 ^ n)) \<le> real_of_int (k * 10 ^ n)"
    by (simp only: of_int_le_iff)
  then show ?thesis
    by (simp add: py_round_def divide_le_eq)
qed

lemma py_round_unit_interval:
  assumes "0 \<le> x" and "x \<le> 1"
  shows "0 \<le> py_round up x n \<and> py_round up x n \<le> 1"
  using py_round_nonneg [OF assms(1), of up n] py_round_le [of x 1 up n] assms(2) by simp

lemma py_round_ten_interval:
  assumes "0 \<le> x" and "x \<le> 10"
  shows "0 \<le> py_round up x n \<and> py_round up x n \<le> 10"
  using py_round_nonneg [OF assms(1), of up n] py_round_le [of x 10 up n] assms(2) by simp




section \<open>Properties of the trust score engine\<close>

lemma hybrid_composite_formula:
  "fst (calculate_hybrid_ppi t ed) =
     (py_round (sentiment_up t) (real_of_int (get_or (episode_data.fear_greed ed) 50) / 10) 2 * 0.4
      + py_round (flow_up t) (min (get_or (etf_inflows ed) 0 / 1000000000) 10) 2 * 0.2
      + py_round (tech_up t) (if get_or (solar_regen ed) False then 7 else 3) 2 * 0.15
      + py_round (macro_up t) (if get_or (whale_accum ed) 0 > 20000 then 8 else 4) 2 * 0.15
      + py_round (esteem_up t) (6 + get_or (sharpe ed) 0 * 2) 2 * 0.1) * 10"
  by (simp add: calculate_hybrid_ppi_def hybrid_silos_def Let_def)

text \<open>
  Claim C1: both composites lie in [0, 100] for every input. The composite of
  \<open>calculate_hybrid_ppi\<close> does not: its Esteem score \<open>6 + 2 * sharpe\<close> has no bound, unlike
  the Flow score beside it, and nothing clamps the sum. With the episode data the
  training environment stores, a fear-and-greed index of 100 and a Sharpe ratio of 10,
  the composite is 108.5, whatever the roundings do at ties.
\<close>

theorem hybrid_ppi_above_100:
  "fst (calculate_hybrid_ppi t
          \<lparr>fear_greed = Some 100, etf_inflows = Some 26900000000,
           solar_regen = Some True, whale_accum = Some 26430, sharpe = Some 10\<rparr>) = 108.5 \<and>
   \<not> fst (calculate_hybrid_ppi t
            \<lparr>fear_greed = Some 100, etf_inflows = Some 26900000000,
             solar_regen = Some True, whale_accum = Some 26430, sharpe = Some 10\<rparr>) \<le> 100"
  by (simp add: calculate_hybrid_ppi_def hybrid_silos_def Let_def get_or_def py_round_def
      round_tie_def)

text \<open>
  What does hold. The composite of \<open>_calculate_ppi\<close> is clamped, so it lies in [0, 100] for
  every input; that of \<open>calculate_hybrid_ppi\<close> lies in [0, 100] when the fear-and-greed
  index is in [0, 100], the inflows are not negative and the Sharpe ratio is in [-3, 2],
  which puts every silo score in [0, 10].
\<close>

lemma calculate_ppi_in_range:
  "0 \<le> calculate_ppi v p d ub us \<and> calculate_ppi v p d ub us \<le> 100"
  by (simp add: calculate_ppi_def np_clip_def Let_def)

lemma hybrid_ppi_in_range_on_scale:
  assumes "0 \<le> get_or (episode_data.fear_greed ed) 50"
    and "get_or (episode_data.fear_greed ed) 50 \<le> 100"
    and "0 \<le> get_or (etf_inflows ed) 0"
    and "- 3 \<le> get_or (sharpe ed) 0" and "get_or (sharpe ed) 0 \<le> 2"
  shows "0 \<le> fst (calculate_hybrid_ppi t ed) \<and> fst (calculate_hybrid_ppi t ed) \<le> 100"
proof -
  define a where
    "a = py_round (sentiment_up t) (real_of_int (get_or (episode_data.fear_greed ed) 50) / 10) 2"
  define b where
    "b = py_round (flow_up t) (min (get_or (etf_inflows ed) 0 / 1000000000) 10) 2"
  define c where "c = py_round (tech_up t) (if get_or (solar_regen ed) False then 7 else 3) 2"
  define dd where
    "dd = py_round (macro_up t) (if get_or (whale_accum ed) 0 > 20000 then 8 else 4) 2"
  define e where "e = py_round (esteem_up t) (6 + get_or (sharpe ed) 0 * 2) 2"
  have a: "0 \<le> a \<and> a \<le> 10"
    unfolding a_def using assms by (intro py_round_ten_interval) simp_all
  have b: "0 \<le> b \<and> b \<le> 10"
    unfolding b_def using assms by (intro py_round_ten_interval) simp_all
  have c: "0 \<le> c \<and> c \<le> 10"
    unfolding c_def by (intro py_round_ten_interval) simp_all
  have d: "0 \<le> dd \<and> dd \<le> 10"
    unfolding dd_def by (intro py_round_ten_interval) simp_all
  have e: "0 \<le> e \<and> e \<le> 10"
    unfolding e_def using assms by (intro py_round_ten_interval) simp_all
  have f: "fst (calculate_hybrid_ppi t ed) =
             (a * 0.4 + b * 0.2 + c * 0.15 + dd * 0.15 + e * 0.1) * 10"
    unfolding a_def b_def c_def dd_def e_def by (rule hybrid_composite_formula)
  show ?thesis
    unfolding f using a b c d e by simp
qed

lemma get_ppi_tier_bins:
  "get_ppi_tier x =
     (if 0 \<le> x \<and> x < 20 then ''Survival (Physiological)''
      else if 20 \<le> x \<and> x < 40 then ''Safety''
      else if 40 \<le> x \<and> x < 60 then ''Belonging''
      else if 60 \<le> x \<and> x < 80 then ''Esteem''
      else ''Self-Actualization'')"
  by (simp add: get_ppi_tier_def PPI_TIER_MAP_def)

text \<open>
  Claim C4, as the specification states it, names the tier of the bin [0, 20)
  \<open>Survival\<close>. The name \<open>get_ppi_tier\<close> returns there is \<open>Survival (Physiological)\<close>.
\<close>

theorem tier_of_10_is_not_Survival:
  "(0::real) \<le> 10 \<and> (10::real) < 20 \<and> get_ppi_tier 10 \<noteq> ''Survival''"
  by (simp add: get_ppi_tier_def PPI_TIER_MAP_def)

text \<open>
  Claim C4, amended: on [0, 100] the tier mapping is total and assigns one of the five
  names of \<open>PPI_TIER_MAP\<close> by half-open bins of width 20: [0, 20) is
  \<open>Survival (Physiological)\<close>, [20, 40) is \<open>Safety\<close>, [40, 60) is \<open>Belonging\<close>, [60, 80) is
  \<open>Esteem\<close>, [80, 100) is \<open>Self-Actualization\<close>, and a score of exactly 100 is
  \<open>Self-Actualization\<close>. The bins do not overlap, so the name is unique.
\<close>

theorem tier_mapping:
  "(0 \<le> x \<and> x < 20 \<longrightarrow> get_ppi_tier x = ''Survival (Physiological)'') \<and>
   (20 \<le> x \<and> x < 40 \<longrightarrow> get_ppi_tier x = ''Safety'') \<and>
   (40 \<le> x \<and> x < 60 \<longrightarrow> get_ppi_tier x = ''Belonging'') \<and>
   (60 \<le> x \<and> x < 80 \<longrightarrow> get_ppi_tier x = ''Esteem'') \<and>
   (80 \<le> x \<and> x < 100 \<longrightarrow> get_ppi_tier x = ''Self-Actualization'') \<and>
   get_ppi_tier 100 = ''Self-Actualization'' \<and>
   (0 \<le> x \<and> x \<le> 100 \<longrightarrow> get_ppi_tier x \<in> set (map snd PPI_TIER_MAP))"
  by (simp add: get_ppi_tier_bins) (simp add: PPI_TIER_MAP_def)

theorem tier_mapping_witness:
  "get_ppi_tier 0 = ''Survival (Physiological)'' \<and>
   get_ppi_tier 39.9 = ''Safety'' \<and>
   get_ppi_tier 40 = ''Belonging'' \<and>
   get_ppi_tier 75 = ''Esteem'' \<and>
   get_ppi_tier 80 = ''Self-Actualization'' \<and>
   get_ppi_tier 100 = ''Self-Actualization'' \<and>
   get_ppi_tier 75 \<in> set (map snd PPI_TIER_MAP)"
  using tier_mapping [of 0] tier_mapping [of "39.9"] tier_mapping [of 40]
    tier_mapping [of 75] tier_mapping [of 80]
  by (simp add: PPI_TIER_MAP_def)

section \<open>Properties of the decision fusion engine\<close>

text \<open>
  The blend of two valid actions is valid, so the \<open>Action(...)\<close> that ends
  \<open>blend_actions\<close> never raises on actions that passed validation.
\<close>

lemma blend_actions_valid:
  assumes "valid_Action a" and "valid_Action b"
  shows "valid_Action (blend_actions t a b)"
proof -
  define agreement :: real where "agreement = (if type a = type b then 1.0 else 0.5)"
  have agr: "0 \<le> agreement \<and> agreement \<le> 1"
    by (simp add: agreement_def)
  have s: "0 \<le> (size a + size b) / 2 \<and> (size a + size b) / 2 \<le> 1"
    using assms by (simp add: valid_Action_def)
  have m: "0 \<le> (confidence a + confidence b) / 2 \<and> (confidence a + confidence b) / 2 \<le> 1"
    using assms by (simp add: valid_Action_def)
  have c: "0 \<le> (confidence a + confidence b) / 2 * agreement \<and>
           (confidence a + confidence b) / 2 * agreement \<le> 1"
  proof
    show "0 \<le> (confidence a + confidence b) / 2 * agreement"
      using m agr by (intro mult_nonneg_nonneg) simp_all
    show "(confidence a + confidence b) / 2 * agreement \<le> 1"
      using m agr by (intro mult_le_one) simp_all
  qed
  have "size (blend_actions t a b) = py_round (size_up t) ((size a + size b) / 2) 3"
    by (simp add: blend_actions_def Let_def)
  moreover have "confidence (blend_actions t a b) =
      py_round (confidence_up t) ((confidence a + confidence b) / 2 * agreement) 3"
    by (simp add: blend_actions_def Let_def agreement_def)
  ultimately show ?thesis
    using py_round_unit_interval [of "(size a + size b) / 2" "size_up t" 3]
      py_round_unit_interval
        [of "(confidence a + confidence b) / 2 * agreement" "confidence_up t" 3] s c
    by (simp add: valid_Action_def)
qed




text \<open>
  Claim C9: swapping the policy's action and the oracle's action leaves the type, the
  size and the confidence of the blend unchanged, for every pair of actions. (The
  reasoning text names the two sources in order and does change.)
\<close>

theorem blend_actions_symmetric:
  "type (blend_actions t a b) = type (blend_actions t b a) \<and>
   size (blend_actions t a b) = size (blend_actions t b a) \<and>
   confidence (blend_actions t a b) = confidence (blend_actions t b a)"
  by (simp add: blend_actions_def Let_def add.commute eq_commute [of "type a" "type b"])

section \<open>Properties of the actor simulation environment\<close>

text \<open>
  \<open>np.max\<close> is the maximum when every entry is a number, and NaN as soon as one entry
  is NaN.
\<close>

lemma fold_np_maximum_numbers:
  "fold np_maximum (map Num xs) (Num x) = Num (fold max xs x)"
  by (induction xs arbitrary: x) (simp_all add: np_maximum_def max_def)

lemma np_max_numbers: "xs \<noteq> [] \<Longrightarrow> np_max (map Num xs) = Num (Max (set xs))"
  by (cases xs)
     (simp_all add: np_max_def fold_np_maximum_numbers Max.set_eq_fold [symmetric])

lemma np_maximum_NaN [simp]: "np_maximum NaN b = NaN" "np_maximum a NaN = NaN"
  by (simp_all add: np_maximum_def)

lemma fold_np_maximum_NaN [simp]: "fold np_maximum xs NaN = NaN"
  by (induction xs) simp_all

lemma fold_np_maximum_has_NaN: "NaN \<in> set xs \<Longrightarrow> fold np_maximum xs x = NaN"
  by (induction xs arbitrary: x) auto

lemma np_max_has_NaN: "NaN \<in> set xs \<Longrightarrow> np_max xs = NaN"
  by (cases xs) (auto simp: np_max_def fold_np_maximum_has_NaN)

lemma npf_greater_NaN [simp]: "\<not> npf_greater NaN b"
  by (simp add: npf_greater_def)

lemma length_regret_fallback [simp]: "length (regret_fallback inp regrets i) = length regrets"
  by (simp add: regret_fallback_def)

lemma length_update_regret [simp]: "length (update_regret inp regrets i) = length regrets"
  by (simp add: update_regret_def split: regret_reply.splits regret_json.splits)

lemma update_actor_regrets_shapes: "shapes_ok s \<Longrightarrow> shapes_ok (update_actor_regrets inp s)"
  by (simp add: shapes_ok_def update_actor_regrets_def)

text \<open>
  Claim C2 asks that every stored regret stays in [0, 1] after the update. The fallback
  branch clamps; the success branch stores what the advisory service returned as it is.
  On a fresh environment, a reply with status 200 and a regret of 1.5 for the first actor
  (the other five requests answered with another status, which leaves their regrets as
  they were) stores 1.5.
\<close>

theorem oracle_regret_stored_unclamped:
  "actor_regrets
     (update_actor_regrets
        \<lparr>regret_replies =
           (\<lambda>i. if i = 0 then Reply200 (Some (Number (Num 1.5))) else ReplyOther),
         regret_noise = (\<lambda>i. 0), whale_rand = 0.5, hft_choice = 1,
         arb_rand = 0.5, arb_choice = 1, belonging_uniform = 6\<rparr>
        (init_env [\<lparr>close = 112000, volume_bar = 1000000000\<rparr>,
                   \<lparr>close = 112500, volume_bar = 900000000\<rparr>]))
   = [Num 1.5, Num 0, Num 0, Num 0, Num 0, Num 0]"
  by (simp add: update_actor_regrets_def update_regret_def init_env_def get_or_def)

text \<open>
  What does hold: one update keeps the regrets in [0, 1] when they were there before and
  the reply, if it carries a regret, carries a number that is there too.
\<close>

lemma in_unit_clip01: "in_unit v \<Longrightarrow> in_unit (npf_clip01 (npf_add v (Num d)))"
  by (cases v) (simp_all add: in_unit_def)

lemma regret_fallback_in_unit:
  assumes "list_all in_unit regrets"
  shows "list_all in_unit (regret_fallback inp regrets i)"
proof (cases "i < length regrets")
  case True
  then have "in_unit (regrets ! i)"
    using assms by (simp add: list_all_length)
  then have "in_unit (npf_clip01 (npf_add (regrets ! i) (Num (regret_noise inp i * 0.1))))"
    by (rule in_unit_clip01)
  then show ?thesis
    using assms
      set_update_subset_insert
        [of regrets i "npf_clip01 (npf_add (regrets ! i) (Num (regret_noise inp i * 0.1)))"]
    by (auto simp: regret_fallback_def list_all_iff)
next
  case False
  then show ?thesis using assms by (simp add: regret_fallback_def list_update_beyond)
qed

lemma update_regret_in_range:
  assumes "list_all in_unit regrets"
    and "regret_replies inp i \<noteq> Reply200 (Some Null)"
    and "\<And>v. regret_replies inp i = Reply200 (Some (Number v)) \<Longrightarrow> in_unit v"
  shows "list_all in_unit (update_regret inp regrets i)"
proof (cases "regret_replies inp i")
  case (Reply200 data)
  show ?thesis
  proof (cases data)
    case None
    have "in_unit (Num 0.5)" by (simp add: in_unit_def)
    with None Reply200 assms(1) show ?thesis
      using set_update_subset_insert [of regrets i "Num 0.5"]
      by (auto simp: update_regret_def get_or_def list_all_iff)
  next
    case (Some j)
    show ?thesis
    proof (cases j)
      case (Number v)
      with Reply200 Some assms(3) have "in_unit v" by simp
      with Reply200 Some Number assms(1) show ?thesis
        using set_update_subset_insert [of regrets i v]
        by (auto simp: update_regret_def get_or_def list_all_iff)
    next
      case Null
      with Reply200 Some assms(2) show ?thesis by simp
    next
      case Unconvertible
      with Reply200 Some show ?thesis
        using regret_fallback_in_unit [OF assms(1), of inp i]
        by (simp add: update_regret_def get_or_def)
    qed
  qed
next
  case ReplyOther
  then show ?thesis using assms(1) by (simp add: update_regret_def)
next
  case ReplyError
  then show ?thesis
    using regret_fallback_in_unit [OF assms(1), of inp i] by (simp add: update_regret_def)
qed

text \<open>
  Frame lemmas: which parts of \<open>step\<close> leave the capital, the trade log, the step counter
  and the data frame alone.
\<close>

lemma get_obs_frame:
  "capital (snd (get_obs s)) = capital s \<and> trades (snd (get_obs s)) = trades s"
  by (simp add: get_obs_def Let_def)

lemma simulate_actors_frame:
  "capital (simulate_actors inp s) = capital s \<and> trades (simulate_actors inp s) = trades s \<and>
   current_step (simulate_actors inp s) = current_step s \<and> df (simulate_actors inp s) = df s"
  by (simp add: simulate_actors_def Let_def case_prod_beta)

lemma update_ppi_silos_frame:
  "capital (update_ppi_silos inp p d s) = capital s \<and>
   trades (update_ppi_silos inp p d s) = trades s \<and>
   current_step (update_ppi_silos inp p d s) = current_step s \<and>
   df (update_ppi_silos inp p d s) = df s"
  by (simp add: update_ppi_silos_def)

lemma update_metrics_frame:
  "capital (fst (update_metrics s)) = capital s \<and> trades (fst (update_metrics s)) = trades s \<and>
   current_step (fst (update_metrics s)) = current_step s \<and> df (fst (update_metrics s)) = df s"
  by (simp add: update_metrics_def Let_def)

lemma execute_action_frame:
  "current_step (fst (execute_action s a)) = current_step s \<and> df (fst (execute_action s a)) = df s"
  by (simp add: execute_action_def Let_def case_prod_beta)

lemma update_actor_regrets_frame:
  "capital (update_actor_regrets inp s) = capital s \<and>
   trades (update_actor_regrets inp s) = trades s \<and>
   current_step (update_actor_regrets inp s) = current_step s \<and>
   price (update_actor_regrets inp s) = price s \<and>
   df (update_actor_regrets inp s) = df s"
  by (simp add: update_actor_regrets_def)

lemma snd_case_obs:
  "snd (case x of Inl e \<Rightarrow> (Inl e, s) | Inr v \<Rightarrow> (Inr (f v), s)) = s"
  by (cases x) simp_all

lemma step_frame:
  "capital (snd (step inp s a)) =
     capital (fst (execute_action (update_actor_regrets inp s)
                     (fst (regret_gate (update_actor_regrets inp s) a))))
   \<and> trades (snd (step inp s a)) =
     trades (fst (execute_action (update_actor_regrets inp s)
                     (fst (regret_gate (update_actor_regrets inp s) a))))"
  unfolding step_def Let_def case_prod_beta
  by (simp add: snd_case_obs get_obs_frame simulate_actors_frame update_ppi_silos_frame
      update_metrics_frame)

lemma get_obs_returns:
  "current_step s < length (df s) \<Longrightarrow> \<exists>vec. fst (get_obs s) = Inr vec"
  by (simp add: get_obs_def Let_def)

lemma step_returns:
  assumes "Suc (current_step s) < length (df s)"
  shows "\<exists>res. fst (step inp s a) =
           Inr res \<and>
           regret_blocked (step_info res) = snd (regret_gate (update_actor_regrets inp s) a) \<and>
           info_action (step_info res) =
             snd (execute_action (update_actor_regrets inp s)
                    (fst (regret_gate (update_actor_regrets inp s) a)))"
proof -
  define s9 where "s9 =
    (let s = update_actor_regrets inp s;
         s = fst (execute_action s (fst (regret_gate s a)));
         s = simulate_actors inp s;
         s = s\<lparr>current_step := current_step s + 1\<rparr>;
         m = update_metrics s;
         s = update_ppi_silos inp (fst (snd (snd m))) (snd (snd (snd m))) (fst m)
     in if check_nash_equilibrium s
        then s\<lparr>nash_equilibrium_count := nash_equilibrium_count s + 1\<rparr> else s)"
  have "current_step s9 < length (df s9)"
    using assms unfolding s9_def Let_def
    by (simp add: update_ppi_silos_frame update_metrics_frame simulate_actors_frame
        execute_action_frame update_actor_regrets_frame)
  then obtain vec where v: "fst (get_obs s9) = Inr vec"
    using get_obs_returns by blast
  show ?thesis
    unfolding step_def Let_def case_prod_beta
    using v unfolding s9_def Let_def
    by (simp add: make_info_def)
qed

text \<open>
  What the gate does in a step on an environment with a next row in the data frame:
  \<open>step\<close> returns a result; if \<open>np.max\<close> of the regrets, as updated in this step, compares
  greater than 0.7, the result reports \<open>regret_blocked\<close>, the action is hold and neither
  the capital nor the trade log changes; otherwise \<open>regret_blocked\<close> is false and the
  capital, the name of the action and the trade are those of the requested action.
\<close>

lemma regret_gate_on_step:
  assumes "Suc (current_step s) < length (df s)"
  shows "\<exists>res. fst (step inp s a) = Inr res \<and>
    (npf_greater (np_max (actor_regrets (update_actor_regrets inp s))) (Num 0.7) \<longrightarrow>
       regret_blocked (step_info res) \<and> info_action (step_info res) = ''hold'' \<and>
       capital (snd (step inp s a)) = capital s \<and>
       trades (snd (step inp s a)) = trades s) \<and>
    (\<not> npf_greater (np_max (actor_regrets (update_actor_regrets inp s))) (Num 0.7) \<longrightarrow>
       \<not> regret_blocked (step_info res) \<and>
       capital (snd (step inp s a)) = fst (apply_action (capital s) a) \<and>
       info_action (step_info res) = snd (snd (apply_action (capital s) a)) \<and>
       trades (snd (step inp s a)) =
         (if fst (snd (apply_action (capital s) a)) \<noteq> 0
          then trades s @
               [\<lparr>t_step = current_step s,
                 t_action = snd (snd (apply_action (capital s) a)),
                 t_size = fst (snd (apply_action (capital s) a)),
                 t_price = price s\<rparr>]
          else trades s))"
proof -
  obtain res where r: "fst (step inp s a) = Inr res"
    and b: "regret_blocked (step_info res) = snd (regret_gate (update_actor_regrets inp s) a)"
    and n: "info_action (step_info res) =
             snd (execute_action (update_actor_regrets inp s)
                    (fst (regret_gate (update_actor_regrets inp s) a)))"
    using step_returns [OF assms, of inp a] by blast
  define s1 where "s1 = update_actor_regrets inp s"
  have fr: "capital s1 = capital s" "trades s1 = trades s" "current_step s1 = current_step s"
    "price s1 = price s"
    by (simp_all add: s1_def update_actor_regrets_frame)
  show ?thesis
  proof (cases "npf_greater (np_max (actor_regrets s1)) (Num 0.7)")
    case True
    then have g: "regret_gate s1 a = (0, True)"
      by (simp add: regret_gate_def)
    have "execute_action s1 0 = (s1, ''hold'')"
      by (simp add: execute_action_def apply_action_def)
    with r b n g step_frame [of inp s a] True fr show ?thesis
      by (auto simp: s1_def)
  next
    case False
    then have g: "regret_gate s1 a = (a, False)"
      by (simp add: regret_gate_def)
    have ex: "capital (fst (execute_action s1 a)) = fst (apply_action (capital s) a)"
      "snd (execute_action s1 a) = snd (snd (apply_action (capital s) a))"
      "trades (fst (execute_action s1 a)) =
         (if fst (snd (apply_action (capital s) a)) \<noteq> 0
          then trades s @
               [\<lparr>t_step = current_step s,
                 t_action = snd (snd (apply_action (capital s) a)),
                 t_size = fst (snd (apply_action (capital s) a)),
                 t_price = price s\<rparr>]
          else trades s)"
      by (simp_all add: execute_action_def Let_def case_prod_beta fr)
    with r b n g step_frame [of inp s a] False show ?thesis
      by (auto simp: s1_def)
  qed
qed

text \<open>
  Claim C3 asks that a regret above 0.7 forces hold. A reply with status 200 whose regret
  is \<open>null\<close> is stored as NaN; \<open>np.max\<close> of the regrets is then NaN, which does not compare
  greater than 0.7, and the gate stays open whatever the other regrets are. On a fresh
  environment with \<open>null\<close> for the first actor and a regret of 0.9 for the second, the
  requested action 2 is executed: the result reports no block, the action is a long at
  0.5%, the capital goes from 1 to 0.995 and the trade is logged.
\<close>

theorem nan_regret_opens_gate:
  "actor_regrets
     (update_actor_regrets
        \<lparr>regret_replies =
           (\<lambda>i. if i = 0 then Reply200 (Some Null)
                 else if i = 1 then Reply200 (Some (Number (Num 0.9))) else ReplyOther),
         regret_noise = (\<lambda>i. 0), whale_rand = 0.5, hft_choice = 1,
         arb_rand = 0.5, arb_choice = 1, belonging_uniform = 6\<rparr>
        (init_env [\<lparr>close = 112000, volume_bar = 1000000000\<rparr>,
                   \<lparr>close = 112500, volume_bar = 900000000\<rparr>,
                   \<lparr>close = 112400, volume_bar = 950000000\<rparr>]))
     = [NaN, Num 0.9, Num 0, Num 0, Num 0, Num 0] \<and>
   (\<exists>res. fst (step
                \<lparr>regret_replies =
                   (\<lambda>i. if i = 0 then Reply200 (Some Null)
                         else if i = 1 then Reply200 (Some (Number (Num 0.9)))
                         else ReplyOther),
                 regret_noise = (\<lambda>i. 0), whale_rand = 0.5, hft_choice = 1,
                 arb_rand = 0.5, arb_choice = 1, belonging_uniform = 6\<rparr>
                (init_env [\<lparr>close = 112000, volume_bar = 1000000000\<rparr>,
                           \<lparr>close = 112500, volume_bar = 900000000\<rparr>,
                           \<lparr>close = 112400, volume_bar = 950000000\<rparr>]) 2) = Inr res \<and>
          \<not> regret_blocked (step_info res) \<and>
          info_action (step_info res) = ''long_0.5%'') \<and>
   capital (snd (step
                \<lparr>regret_replies =
                   (\<lambda>i. if i = 0 then Reply200 (Some Null)
                         else if i = 1 then Reply200 (Some (Number (Num 0.9)))
                         else ReplyOther),
                 regret_noise = (\<lambda>i. 0), whale_rand = 0.5, hft_choice = 1,
                 arb_rand = 0.5, arb_choice = 1, belonging_uniform = 6\<rparr>
                (init_env [\<lparr>close = 112000, volume_bar = 1000000000\<rparr>,
                           \<lparr>close = 112500, volume_bar = 900000000\<rparr>,
                           \<lparr>close = 112400, volume_bar = 950000000\<rparr>]) 2)) = 0.995 \<and>
   trades (snd (step
                \<lparr>regret_replies =
                   (\<lambda>i. if i = 0 then Reply200 (Some Null)
                         else if i = 1 then Reply200 (Some (Number (Num 0.9)))
                         else ReplyOther),
                 regret_noise = (\<lambda>i. 0), whale_rand = 0.5, hft_choice = 1,
                 arb_rand = 0.5, arb_choice = 1, belonging_uniform = 6\<rparr>
                (init_env [\<lparr>close = 112000, volume_bar = 1000000000\<rparr>,
                           \<lparr>close = 112500, volume_bar = 900000000\<rparr>,
                           \<lparr>close = 112400, volume_bar = 950000000\<rparr>]) 2)) =
     [\<lparr>t_step = 0, t_action = ''long_0.5%'', t_size = 0.005, t_price = 112000\<rparr>]"
  using regret_gate_on_step
          [of "init_env [\<lparr>close = 112000, volume_bar = 1000000000\<rparr>,
                         \<lparr>close = 112500, volume_bar = 900000000\<rparr>,
                         \<lparr>close = 112400, volume_bar = 950000000\<rparr>]"
              "\<lparr>regret_replies =
                   (\<lambda>i. if i = 0 then Reply200 (Some Null)
                         else if i = 1 then Reply200 (Some (Number (Num 0.9)))
                         else ReplyOther),
                 regret_noise = (\<lambda>i. 0), whale_rand = 0.5, hft_choice = 1,
                 arb_rand = 0.5, arb_choice = 1, belonging_uniform = 6\<rparr>" 2]
  by (auto simp: init_env_def update_actor_regrets_def update_regret_def
      get_or_def np_max_def np_maximum_def npf_greater_def apply_action_def risk_table_def)

lemma apply_action_cases:
  "apply_action cap a = (cap', sz, nm) \<Longrightarrow>
     (cap' = cap \<and> sz = 0) \<or> (1 \<le> a \<and> a \<le> 8)"
  by (auto simp: apply_action_def Let_def case_prod_beta split: if_splits)

lemma execute_action_changes:
  assumes "capital (fst (execute_action s a)) \<noteq> capital s \<or>
           trades (fst (execute_action s a)) \<noteq> trades s"
  shows "1 \<le> a \<and> a \<le> 8"
proof -
  obtain cap' sz nm where ap: "apply_action (capital s) a = (cap', sz, nm)"
    by (cases "apply_action (capital s) a") auto
  from assms ap have "\<not> (cap' = capital s \<and> sz = 0)"
    by (auto simp: execute_action_def Let_def)
  with apply_action_cases [OF ap] show ?thesis by blast
qed

text \<open>
  Claim C10: when the executed action of a step is hold (action 0), the step leaves the
  capital unchanged and appends nothing to the trade log; a regret gate that fires makes
  the executed action 0; and when a step changes the capital or the trade log, the
  executed action is one of the eight non-hold actions 1 to 8.
\<close>

theorem hold_leaves_capital_and_trades:
  "(fst (regret_gate (update_actor_regrets inp s) a) = 0 \<longrightarrow>
      capital (snd (step inp s a)) = capital s \<and> trades (snd (step inp s a)) = trades s) \<and>
   (npf_greater (np_max (actor_regrets (update_actor_regrets inp s))) (Num 0.7) \<longrightarrow>
      fst (regret_gate (update_actor_regrets inp s) a) = 0) \<and>
   (capital (snd (step inp s a)) \<noteq> capital s \<or> trades (snd (step inp s a)) \<noteq> trades s \<longrightarrow>
      1 \<le> fst (regret_gate (update_actor_regrets inp s) a) \<and>
      fst (regret_gate (update_actor_regrets inp s) a) \<le> 8)"
proof (intro conjI impI)
  assume "fst (regret_gate (update_actor_regrets inp s) a) = 0"
  then show "capital (snd (step inp s a)) = capital s"
    and "trades (snd (step inp s a)) = trades s"
    using step_frame [of inp s a]
    by (simp_all add: execute_action_def apply_action_def update_actor_regrets_frame)
next
  assume "npf_greater (np_max (actor_regrets (update_actor_regrets inp s))) (Num 0.7)"
  then show "fst (regret_gate (update_actor_regrets inp s) a) = 0"
    by (simp add: regret_gate_def)
next
  assume "capital (snd (step inp s a)) \<noteq> capital s \<or> trades (snd (step inp s a)) \<noteq> trades s"
  then have "capital (fst (execute_action (update_actor_regrets inp s)
                 (fst (regret_gate (update_actor_regrets inp s) a))))
               \<noteq> capital (update_actor_regrets inp s) \<or>
             trades (fst (execute_action (update_actor_regrets inp s)
                 (fst (regret_gate (update_actor_regrets inp s) a))))
               \<noteq> trades (update_actor_regrets inp s)"
    using step_frame [of inp s a] by (simp add: update_actor_regrets_frame)
  then have "1 \<le> fst (regret_gate (update_actor_regrets inp s) a) \<and>
             fst (regret_gate (update_actor_regrets inp s) a) \<le> 8"
    by (rule execute_action_changes)
  then show "1 \<le> fst (regret_gate (update_actor_regrets inp s) a)"
    and "fst (regret_gate (update_actor_regrets inp s) a) \<le> 8"
    by simp_all
qed

theorem hold_leaves_capital_and_trades_witness:
  "capital (snd (step \<lparr>regret_replies = (\<lambda>i. Reply200 (Some (Number (Num 0.4)))),
                      regret_noise = (\<lambda>i. 0), whale_rand = 0.5, hft_choice = 1,
                      arb_rand = 0.5, arb_choice = 1, belonging_uniform = 6\<rparr>
                (init_env [\<lparr>close = 112000, volume_bar = 1000000000\<rparr>,
                           \<lparr>close = 112500, volume_bar = 900000000\<rparr>]) 0)) = 1 \<and>
   trades (snd (step \<lparr>regret_replies = (\<lambda>i. Reply200 (Some (Number (Num 0.4)))),
                      regret_noise = (\<lambda>i. 0), whale_rand = 0.5, hft_choice = 1,
                      arb_rand = 0.5, arb_choice = 1, belonging_uniform = 6\<rparr>
                (init_env [\<lparr>close = 112000, volume_bar = 1000000000\<rparr>,
                           \<lparr>close = 112500, volume_bar = 900000000\<rparr>]) 0)) = [] \<and>
   fst (regret_gate (update_actor_regrets
                       \<lparr>regret_replies =
                          (\<lambda>i. if i = 3 then Reply200 (Some (Number (Num 0.9)))
                                else ReplyError),
                        regret_noise = (\<lambda>i. 0), whale_rand = 0.5, hft_choice = 1,
                        arb_rand = 0.5, arb_choice = 1, belonging_uniform = 6\<rparr>
                       (init_env [\<lparr>close = 112000, volume_bar = 1000000000\<rparr>,
                                  \<lparr>close = 112500, volume_bar = 900000000\<rparr>])) 7) = 0 \<and>
   capital (snd (step \<lparr>regret_replies = (\<lambda>i. Reply200 (Some (Number (Num 0.4)))),
                      regret_noise = (\<lambda>i. 0), whale_rand = 0.5, hft_choice = 1,
                      arb_rand = 0.5, arb_choice = 1, belonging_uniform = 6\<rparr>
                (init_env [\<lparr>close = 112000, volume_bar = 1000000000\<rparr>,
                           \<lparr>close = 112500, volume_bar = 900000000\<rparr>]) 7)) = 0.9 \<and>
   fst (regret_gate (update_actor_regrets
                       \<lparr>regret_replies = (\<lambda>i. Reply200 (Some (Number (Num 0.4)))),
                        regret_noise = (\<lambda>i. 0), whale_rand = 0.5, hft_choice = 1,
                        arb_rand = 0.5, arb_choice = 1, belonging_uniform = 6\<rparr>
                       (init_env [\<lparr>close = 112000, volume_bar = 1000000000\<rparr>,
                                  \<lparr>close = 112500, volume_bar = 900000000\<rparr>])) 7) = 7"
  using hold_leaves_capital_and_trades
          [of "\<lparr>regret_replies = (\<lambda>i. Reply200 (Some (Number (Num 0.4)))),
                      regret_noise = (\<lambda>i. 0), whale_rand = 0.5, hft_choice = 1,
                      arb_rand = 0.5, arb_choice = 1, belonging_uniform = 6\<rparr>"
              "init_env [\<lparr>close = 112000, volume_bar = 1000000000\<rparr>,
                           \<lparr>close = 112500, volume_bar = 900000000\<rparr>]" 0]
        hold_leaves_capital_and_trades
          [of "\<lparr>regret_replies =
                          (\<lambda>i. if i = 3 then Reply200 (Some (Number (Num 0.9)))
                                else ReplyError),
                      regret_noise = (\<lambda>i. 0), whale_rand = 0.5, hft_choice = 1,
                      arb_rand = 0.5, arb_choice = 1, belonging_uniform = 6\<rparr>"
              "init_env [\<lparr>close = 112000, volume_bar = 1000000000\<rparr>,
                           \<lparr>close = 112500, volume_bar = 900000000\<rparr>]" 7]
        hold_leaves_capital_and_trades
          [of "\<lparr>regret_replies = (\<lambda>i. Reply200 (Some (Number (Num 0.4)))),
                      regret_noise = (\<lambda>i. 0), whale_rand = 0.5, hft_choice = 1,
                      arb_rand = 0.5, arb_choice = 1, belonging_uniform = 6\<rparr>"
              "init_env [\<lparr>close = 112000, volume_bar = 1000000000\<rparr>,
                           \<lparr>close = 112500, volume_bar = 900000000\<rparr>]" 7]
  by (simp add: step_frame regret_gate_def init_env_def update_actor_regrets_def
      update_regret_def regret_fallback_def get_or_def np_max_def np_maximum_def
      npf_greater_def execute_action_def apply_action_def)

text \<open>
  Claim C6: whenever the data frame has a row for the current step, \<open>_get_obs\<close> returns a
  vector of exactly 42 entries, however many entries the arrays it concatenates have:
  with at most 42 values the vector is these followed by zeros, with 42 or more it is
  the first 42 of them.
\<close>

theorem get_obs_length:
  assumes "current_step s < length (df s)"
  shows "\<exists>vec. fst (get_obs s) = Inr vec \<and> length vec = obs_dim \<and>
    (length (concat_obs (snd (get_obs s))) \<le> obs_dim \<longrightarrow>
       vec = concat_obs (snd (get_obs s)) @
             replicate (obs_dim - length (concat_obs (snd (get_obs s)))) (Num 0)) \<and>
    (obs_dim \<le> length (concat_obs (snd (get_obs s))) \<longrightarrow>
       vec = take obs_dim (concat_obs (snd (get_obs s))))"
  using assms by (simp add: get_obs_def Let_def obs_dim_def)

theorem get_obs_length_witness:
  "(\<exists>vec. fst (get_obs (init_env [\<lparr>close = 112000, volume_bar = 1000000000\<rparr>])) = Inr vec \<and>
          length vec = 42 \<and> drop 30 vec = replicate 12 (Num 0)) \<and>
   (\<exists>vec. fst (get_obs ((init_env [\<lparr>close = 112000, volume_bar = 1000000000\<rparr>])
                          \<lparr>ppi_silos := [1, 2, 3, 4, 5, 6, 7, 8, 9, 10, 11, 12, 13, 14, 15,
                                         16, 17, 18, 19, 20]\<rparr>)) = Inr vec \<and>
          length vec = 42 \<and>
          take 20 vec = map Num [1, 2, 3, 4, 5, 6, 7, 8, 9, 10, 11, 12, 13, 14, 15,
                                  16, 17, 18, 19, 20])"
  using get_obs_length [of "init_env [\<lparr>close = 112000, volume_bar = 1000000000\<rparr>]"]
        get_obs_length [of "(init_env [\<lparr>close = 112000, volume_bar = 1000000000\<rparr>])
                          \<lparr>ppi_silos := [1, 2, 3, 4, 5, 6, 7, 8, 9, 10, 11, 12, 13, 14, 15,
                                         16, 17, 18, 19, 20]\<rparr>"]
  by (auto simp: init_env_def obs_dim_def concat_obs_def get_obs_def Let_def)

section \<open>Properties of the episode session manager\<close>

lemma take_step_not_live:
  "active_episodes srv (episode_id request) = None \<Longrightarrow>
     take_step inp srv request =
       (Inl (HTTPException 404 ''Episode not found or already ended''), srv)"
  by (simp add: take_step_def)

lemma take_step_keeps_not_live:
  "active_episodes srv eid = None \<Longrightarrow>
     active_episodes (snd (take_step inp srv request)) eid = None"
  by (cases "episode_id request = eid")
     (auto simp: take_step_def Let_def case_prod_beta split: option.splits)

lemma end_cleanup_removes:
  "active_episodes (snd (end_cleanup inp srv eid agent_id)) eid = None"
  by (simp add: end_cleanup_def Let_def)

lemma end_cleanup_keeps_not_live:
  "active_episodes srv eid' = None \<Longrightarrow>
     active_episodes (snd (end_cleanup inp srv eid agent_id)) eid' = None"
  by (simp add: end_cleanup_def Let_def)

lemma end_cleanup_succeeds: "\<exists>resp. fst (end_cleanup inp srv eid agent_id) = Inr resp"
  by (simp add: end_cleanup_def Let_def)

lemma end_episode_keeps_not_live:
  "active_episodes srv eid = None \<Longrightarrow>
     active_episodes (snd (end_episode inp srv request)) eid = None"
  by (auto simp: end_episode_def Let_def end_cleanup_keeps_not_live
      split: option.splits list.splits)

lemma end_episode_success_removes:
  assumes "fst (end_episode inp srv request) = Inr resp"
  shows "active_episodes (snd (end_episode inp srv request)) (ee_episode_id request) = None"
  using assms
  by (auto simp: end_episode_def Let_def end_cleanup_removes
      split: option.splits list.splits if_splits)

lemma run_calls_keeps_not_live:
  "active_episodes srv eid = None \<Longrightarrow> active_episodes (run_calls cs srv) eid = None"
proof (induction cs arbitrary: srv)
  case Nil
  then show ?case by simp
next
  case (Cons c cs)
  have "active_episodes (run_call c srv) eid = None"
    using Cons.prems
    by (cases c) (simp_all add: take_step_keeps_not_live end_episode_keeps_not_live)
  then show ?case by (simp add: Cons.IH)
qed


text \<open>
  Claim C7: when \<open>end_episode\<close> runs on a live episode with the store reachable, a
  start balance other than 0 and an agent row whose episode count \<open>n\<close> is not 0, it
  succeeds and writes to the agent's row, for each of \<open>irr\<close>, \<open>sharpe\<close> and \<open>ppi_score\<close>, the
  value \<open>(old * (n - 1) + value) / n\<close>, where \<open>old\<close> is the stored average (0 when there is
  none) and \<open>value\<close> is the episode's figure. With three episodes, a stored \<open>irr\<close> of 10
  and an episode \<open>irr\<close> of 20 the new \<open>irr\<close> is 40/3.
\<close>

theorem end_episode_running_average:
  assumes "active_episodes srv (ee_episode_id request) = Some ep"
    and "supabase srv = Some st"
    and "store_up inp 0" and "store_up inp 1" and "store_up inp 2"
    and "ep_initial_balance ep \<noteq> 0"
    and "filter (\<lambda>a. ag_id a = ep_agent_id ep) (agents st) = current_agent # others"
    and "ag_episodes_trained current_agent = n" and "n \<noteq> 0"
    and "irr = (final_pnl request / ep_initial_balance ep) * 100"
    and "shp = irr / max 1 (real_of_int (total_steps request) / 10)"
  shows "\<exists>resp st'.
    fst (end_episode inp srv request) = Inr resp \<and>
    supabase (snd (end_episode inp srv request)) = Some st' \<and>
    agents st' =
      map (\<lambda>a. if ag_id a = ep_agent_id ep
                then a\<lparr>ag_irr := Some ((get_or (ag_irr current_agent) 0 * real_of_int (n - 1)
                                         + irr) / real_of_int n),
                       ag_sharpe := Some ((get_or (ag_sharpe current_agent) 0 * real_of_int (n - 1)
                                            + shp) / real_of_int n),
                       ag_ppi_score := Some ((get_or (ag_ppi_score current_agent) 0
                                                * real_of_int (n - 1)
                                              + ee_ppi_score request) / real_of_int n)\<rparr>
                else a) (agents st)"
  using assms
  by (simp add: end_episode_def end_cleanup_def running_average_def Let_def)

theorem end_episode_running_average_witness:
  "\<exists>resp st'.
     fst (end_episode
            (\<lparr>store_up = (\<lambda>k. True), store_error = ''timeout'', end_send_fails = [2]\<rparr>)
            (\<lparr>supabase = Some \<lparr>agents = [\<lparr>ag_id = ''agent-1'', ag_name = ''Agent-A'',
             ag_episodes_trained = 3, ag_irr = Some 10,
             ag_sharpe = None, ag_ppi_score = Some 60\<rparr>],
             episodes = [\<lparr>er_id = ''ep-1'', er_agent_id = ''agent-1'',
             er_episode_number = 3, er_steps = 0,
             er_total_reward = 0, er_ppi_score = 0\<rparr>],
             actions = []\<rparr>,
             active_episodes = [''ep-1'' \<mapsto> \<lparr>ep_agent_id = ''agent-1'',
             ep_agent_name = ''Agent-A'',
             ep_initial_balance = 10000, ep_current_step = 50,
             ep_agent = \<lparr>agent_name = ''Agent-A'',
             step_count = 50, last_action = Hold\<rparr>,
             ep_ppi_score = Some 90\<rparr>],
             websocket_connections = [''ep-1'' \<mapsto> [1, 2]]\<rparr>)
            (\<lparr>ee_episode_id = ''ep-1'', final_pnl = 2000, ee_ppi_score = 90,
             total_steps = 50, total_reward = 12\<rparr>)) = Inr resp \<and>
     supabase (snd (end_episode
            (\<lparr>store_up = (\<lambda>k. True), store_error = ''timeout'', end_send_fails = [2]\<rparr>)
            (\<lparr>supabase = Some \<lparr>agents = [\<lparr>ag_id = ''agent-1'', ag_name = ''Agent-A'',
             ag_episodes_trained = 3, ag_irr = Some 10,
             ag_sharpe = None, ag_ppi_score = Some 60\<rparr>],
             episodes = [\<lparr>er_id = ''ep-1'', er_agent_id = ''agent-1'',
             er_episode_number = 3, er_steps = 0,
             er_total_reward = 0, er_ppi_score = 0\<rparr>],
             actions = []\<rparr>,
             active_episodes = [''ep-1'' \<mapsto> \<lparr>ep_agent_id = ''agent-1'',
             ep_agent_name = ''Agent-A'',
             ep_initial_balance = 10000, ep_current_step = 50,
             ep_agent = \<lparr>agent_name = ''Agent-A'',
             step_count = 50, last_action = Hold\<rparr>,
             ep_ppi_score = Some 90\<rparr>],
             websocket_connections = [''ep-1'' \<mapsto> [1, 2]]\<rparr>)
            (\<lparr>ee_episode_id = ''ep-1'', final_pnl = 2000, ee_ppi_score = 90,
             total_steps = 50, total_reward = 12\<rparr>))) = Some st' \<and>
     agents st' = [\<lparr>ag_id = ''agent-1'', ag_name = ''Agent-A'', ag_episodes_trained = 3,
                    ag_irr = Some (40 / 3), ag_sharpe = Some (4 / 3),
                    ag_ppi_score = Some 70\<rparr>]"
  using end_episode_running_average
    [of "\<lparr>supabase = Some \<lparr>agents = [\<lparr>ag_id = ''agent-1'', ag_name = ''Agent-A'',
         ag_episodes_trained = 3, ag_irr = Some 10,
         ag_sharpe = None, ag_ppi_score = Some 60\<rparr>],
         episodes = [\<lparr>er_id = ''ep-1'', er_agent_id = ''agent-1'',
         er_episode_number = 3, er_steps = 0,
         er_total_reward = 0, er_ppi_score = 0\<rparr>],
         actions = []\<rparr>,
         active_episodes = [''ep-1'' \<mapsto> \<lparr>ep_agent_id = ''agent-1'',
         ep_agent_name = ''Agent-A'',
         ep_initial_balance = 10000, ep_current_step = 50,
         ep_agent = \<lparr>agent_name = ''Agent-A'',
         step_count = 50, last_action = Hold\<rparr>,
         ep_ppi_score = Some 90\<rparr>],
         websocket_connections = [''ep-1'' \<mapsto> [1, 2]]\<rparr>"
        "\<lparr>ee_episode_id = ''ep-1'', final_pnl = 2000, ee_ppi_score = 90,
         total_steps = 50, total_reward = 12\<rparr>"
        "\<lparr>ep_agent_id = ''agent-1'', ep_agent_name = ''Agent-A'',
          ep_initial_balance = 10000, ep_current_step = 50,
          ep_agent = \<lparr>agent_name = ''Agent-A'', step_count = 50, last_action = Hold\<rparr>,
          ep_ppi_score = Some 90\<rparr>"
        "\<lparr>agents = [\<lparr>ag_id = ''agent-1'', ag_name = ''Agent-A'',
                      ag_episodes_trained = 3, ag_irr = Some 10,
                      ag_sharpe = None, ag_ppi_score = Some 60\<rparr>],
          episodes = [\<lparr>er_id = ''ep-1'', er_agent_id = ''agent-1'',
                        er_episode_number = 3, er_steps = 0,
                        er_total_reward = 0, er_ppi_score = 0\<rparr>],
          actions = []\<rparr>"
        "\<lparr>store_up = (\<lambda>k. True), store_error = ''timeout'', end_send_fails = [2]\<rparr>"
        "\<lparr>ag_id = ''agent-1'', ag_name = ''Agent-A'',
          ag_episodes_trained = 3, ag_irr = Some 10,
          ag_sharpe = None, ag_ppi_score = Some 60\<rparr>"
        "[]" 3 20 4]
  by (simp add: get_or_def)

text \<open>
  Claim C8: \<open>take_step\<close> on an episode id that is not in the live registry fails with
  status 404, the \<open>NotFound\<close> of the specification, and changes nothing; and after
  \<open>end_episode\<close> has succeeded for an id, the id is out of the registry, so that a
  \<open>take_step\<close> with that id fails with 404 after any further sequence of \<open>/step\<close> and
  \<open>/end\<close> requests.
\<close>

theorem step_not_found_and_end_terminal:
  "(active_episodes srv (episode_id request) = None \<longrightarrow>
      take_step inp srv request =
        (Inl (HTTPException 404 ''Episode not found or already ended''), srv)) \<and>
   (fst (end_episode einp srv erequest) = Inr resp \<and>
    episode_id request = ee_episode_id erequest \<longrightarrow>
      active_episodes (snd (end_episode einp srv erequest)) (ee_episode_id erequest) = None \<and>
      take_step inp (run_calls cs (snd (end_episode einp srv erequest))) request =
        (Inl (HTTPException 404 ''Episode not found or already ended''),
         run_calls cs (snd (end_episode einp srv erequest))))"
proof (intro conjI impI)
  assume "active_episodes srv (episode_id request) = None"
  then show "take_step inp srv request =
        (Inl (HTTPException 404 ''Episode not found or already ended''), srv)"
    by (rule take_step_not_live)
next
  assume h: "fst (end_episode einp srv erequest) = Inr resp \<and>
    episode_id request = ee_episode_id erequest"
  then show gone:
    "active_episodes (snd (end_episode einp srv erequest)) (ee_episode_id erequest) = None"
    using end_episode_success_removes [of einp srv erequest resp] by simp
  then have "active_episodes (run_calls cs (snd (end_episode einp srv erequest)))
               (episode_id request) = None"
    using h by (simp add: run_calls_keeps_not_live)
  then show "take_step inp (run_calls cs (snd (end_episode einp srv erequest))) request =
        (Inl (HTTPException 404 ''Episode not found or already ended''),
         run_calls cs (snd (end_episode einp srv erequest)))"
    by (rule take_step_not_live)
qed

theorem step_not_found_and_end_terminal_witness:
  "fst (take_step
          (\<lparr>policy_size_up = False, policy_confidence_up = False,
            policy_text_up = False,
            blend_up = \<lparr>size_up = False, confidence_up = False, rl_text_up = False,
                         grok_text_up = False, final_text_up = False\<rparr>,
            price_momentum = 0.01, decision_noise = 0.1, size_draw = 0.2,
           confidence_draw = 0.4, reward_draw = 0.5, grok = GrokStatus 503,
           validation_text = ''invalid'', insert_ok = True, send_fails = []\<rparr>)
          \<lparr>supabase = None, active_episodes = Map.empty,
           websocket_connections = Map.empty\<rparr>
          (\<lparr>episode_id = ''ep-1'',
           market_state = \<lparr>ms_price = 45000, ms_volume = 1000, sentiment = 0.2\<rparr>,
           current_balance = 10000, current_position = 0\<rparr>)) =
     Inl (HTTPException 404 ''Episode not found or already ended'') \<and>
   fst (take_step
          (\<lparr>policy_size_up = False, policy_confidence_up = False,
            policy_text_up = False,
            blend_up = \<lparr>size_up = False, confidence_up = False, rl_text_up = False,
                         grok_text_up = False, final_text_up = False\<rparr>,
            price_momentum = 0.01, decision_noise = 0.1, size_draw = 0.2,
           confidence_draw = 0.4, reward_draw = 0.5, grok = GrokStatus 503,
           validation_text = ''invalid'', insert_ok = True, send_fails = []\<rparr>)
          (run_calls
             [Step (\<lparr>policy_size_up = False, policy_confidence_up = False,
                     policy_text_up = False,
                     blend_up = \<lparr>size_up = False, confidence_up = False, rl_text_up = False,
                                  grok_text_up = False, final_text_up = False\<rparr>,
                     price_momentum = 0.01, decision_noise = 0.1, size_draw = 0.2,
                    confidence_draw = 0.4, reward_draw = 0.5, grok = GrokStatus 503,
                    validation_text = ''invalid'', insert_ok = True, send_fails = []\<rparr>)
                   (\<lparr>episode_id = ''ep-1'',
                    market_state = \<lparr>ms_price = 45000, ms_volume = 1000, sentiment = 0.2\<rparr>,
                    current_balance = 10000, current_position = 0\<rparr>),
              End (\<lparr>store_up = (\<lambda>k. True), store_error = ''timeout'', end_send_fails = [2]\<rparr>)
                  (\<lparr>ee_episode_id = ''ep-1'', final_pnl = 2000, ee_ppi_score = 90,
                   total_steps = 50, total_reward = 12\<rparr>)]
             (snd (end_episode
                     (\<lparr>store_up = (\<lambda>k. True), store_error = ''timeout'', end_send_fails = [2]\<rparr>)
                     (\<lparr>supabase = Some \<lparr>agents = [\<lparr>ag_id = ''agent-1'', ag_name = ''Agent-A'',
                      ag_episodes_trained = 3, ag_irr = Some 10,
                      ag_sharpe = None, ag_ppi_score = Some 60\<rparr>],
                      episodes = [\<lparr>er_id = ''ep-1'', er_agent_id = ''agent-1'',
                      er_episode_number = 3, er_steps = 0,
                      er_total_reward = 0, er_ppi_score = 0\<rparr>],
                      actions = []\<rparr>,
                      active_episodes = [''ep-1'' \<mapsto> \<lparr>ep_agent_id = ''agent-1'',
                      ep_agent_name = ''Agent-A'',
                      ep_initial_balance = 10000, ep_current_step = 50,
                      ep_agent = \<lparr>agent_name = ''Agent-A'',
                      step_count = 50, last_action = Hold\<rparr>,
                      ep_ppi_score = Some 90\<rparr>],
                      websocket_connections = [''ep-1'' \<mapsto> [1, 2]]\<rparr>)
                     (\<lparr>ee_episode_id = ''ep-1'', final_pnl = 2000, ee_ppi_score = 90,
                      total_steps = 50, total_reward = 12\<rparr>))))
          (\<lparr>episode_id = ''ep-1'',
           market_state = \<lparr>ms_price = 45000, ms_volume = 1000, sentiment = 0.2\<rparr>,
           current_balance = 10000, current_position = 0\<rparr>)) =
     Inl (HTTPException 404 ''Episode not found or already ended'')"
  using step_not_found_and_end_terminal
    [of "\<lparr>supabase = None, active_episodes = Map.empty,
          websocket_connections = Map.empty\<rparr>"
        "\<lparr>episode_id = ''ep-1'',
         market_state = \<lparr>ms_price = 45000, ms_volume = 1000, sentiment = 0.2\<rparr>,
         current_balance = 10000, current_position = 0\<rparr>"
        "\<lparr>policy_size_up = False, policy_confidence_up = False,
          policy_text_up = False,
          blend_up = \<lparr>size_up = False, confidence_up = False, rl_text_up = False,
                       grok_text_up = False, final_text_up = False\<rparr>,
          price_momentum = 0.01, decision_noise = 0.1, size_draw = 0.2,
         confidence_draw = 0.4, reward_draw = 0.5, grok = GrokStatus 503,
         validation_text = ''invalid'', insert_ok = True, send_fails = []\<rparr>"]
    step_not_found_and_end_terminal
    [of "\<lparr>supabase = Some \<lparr>agents = [\<lparr>ag_id = ''agent-1'', ag_name = ''Agent-A'',
         ag_episodes_trained = 3, ag_irr = Some 10,
         ag_sharpe = None, ag_ppi_score = Some 60\<rparr>],
         episodes = [\<lparr>er_id = ''ep-1'', er_agent_id = ''agent-1'',
         er_episode_number = 3, er_steps = 0,
         er_total_reward = 0, er_ppi_score = 0\<rparr>],
         actions = []\<rparr>,
         active_episodes = [''ep-1'' \<mapsto> \<lparr>ep_agent_id = ''agent-1'',
         ep_agent_name = ''Agent-A'',
         ep_initial_balance = 10000, ep_current_step = 50,
         ep_agent = \<lparr>agent_name = ''Agent-A'',
         step_count = 50, last_action = Hold\<rparr>,
         ep_ppi_score = Some 90\<rparr>],
         websocket_connections = [''ep-1'' \<mapsto> [1, 2]]\<rparr>"
        "\<lparr>episode_id = ''ep-1'',
         market_state = \<lparr>ms_price = 45000, ms_volume = 1000, sentiment = 0.2\<rparr>,
         current_balance = 10000, current_position = 0\<rparr>"
        "\<lparr>policy_size_up = False, policy_confidence_up = False,
          policy_text_up = False,
          blend_up = \<lparr>size_up = False, confidence_up = False, rl_text_up = False,
                       grok_text_up = False, final_text_up = False\<rparr>,
          price_momentum = 0.01, decision_noise = 0.1, size_draw = 0.2,
         confidence_draw = 0.4, reward_draw = 0.5, grok = GrokStatus 503,
         validation_text = ''invalid'', insert_ok = True, send_fails = []\<rparr>"
        "\<lparr>store_up = (\<lambda>k. True), store_error = ''timeout'', end_send_fails = [2]\<rparr>"
        "\<lparr>ee_episode_id = ''ep-1'', final_pnl = 2000, ee_ppi_score = 90,
         total_steps = 50, total_reward = 12\<rparr>"
        "\<lparr>end_episode_id = ''ep-1'', end_agent_id = ''agent-1'', saved = True,
          message = ''Episode ended and saved successfully''\<rparr>"
        "[Step (\<lparr>policy_size_up = False, policy_confidence_up = False,
                 policy_text_up = False,
                 blend_up = \<lparr>size_up = False, confidence_up = False, rl_text_up = False,
                              grok_text_up = False, final_text_up = False\<rparr>,
                 price_momentum = 0.01, decision_noise = 0.1, size_draw = 0.2,
                confidence_draw = 0.4, reward_draw = 0.5, grok = GrokStatus 503,
                validation_text = ''invalid'', insert_ok = True, send_fails = []\<rparr>)
               (\<lparr>episode_id = ''ep-1'',
                market_state = \<lparr>ms_price = 45000, ms_volume = 1000, sentiment = 0.2\<rparr>,
                current_balance = 10000, current_position = 0\<rparr>),
          End (\<lparr>store_up = (\<lambda>k. True), store_error = ''timeout'', end_send_fails = [2]\<rparr>)
              (\<lparr>ee_episode_id = ''ep-1'', final_pnl = 2000, ee_ppi_score = 90,
               total_steps = 50, total_reward = 12\<rparr>)]"]
  by (simp add: end_episode_def end_cleanup_def Let_def)

end
